theory Spec2Isabelle
  imports Complex_Main "HOL-Library.AList" "HOL-Library.Log_Nat"
begin

section \<open>Python values, dictionaries and exceptions\<close>

text \<open>
  The bot keeps everything in one dictionary \<open>self.user_data\<close> that is read from and
  written to \<open>user_data.json\<close>. Its values are whatever \<open>json.load\<close> produces: \<open>None\<close>,
  booleans, integers, floats, strings, lists and dictionaries with string keys. A dictionary
  is an association list in insertion order; \<open>AList.update\<close> overwrites a key in place or
  appends it, as a Python \<open>dict\<close> does. A float is written as a rational number and stands
  for the double nearest to it (\<open>round_double\<close> below); NaN and the infinities are left out.
\<close>

datatype pyval =
    PNone
  | PBool bool
  | PInt int
  | PFloat rat
  | PStr string
  | PList "pyval list"
  | PDict "(string \<times> pyval) list"

type_synonym pydict = "(string \<times> pyval) list"

datatype error =
    TypeError
  | KeyError pyval
  | ValueError
  | AttributeError
  | NotFound
  | HTTPException
  | NoAnswer

subsection \<open>Floats\<close>

text \<open>
  A double has 53 significant bits. \<open>round_double x\<close> is the double nearest to \<open>x\<close>, ties
  going to the even significand: with \<open>2 ^ e \<le> |x| < 2 ^ (e + 1)\<close>, the doubles around \<open>x\<close>
  are the multiples of \<open>2 ^ (e - 52)\<close> (of \<open>2 ^ -1074\<close> in the subnormal range). This is what
  reading a decimal, multiplying two floats and dividing two integers give. Overflow to
  infinity is left out.
\<close>

definition round_half_even :: "rat \<Rightarrow> int" where
  "round_half_even y =
     (let n = \<lfloor>y\<rfloor>; f = y - of_int n in
        if f < 1 / 2 then n else if 1 / 2 < f then n + 1 else if even n then n else n + 1)"

definition pow2 :: "int \<Rightarrow> rat" where
  "pow2 k = (if 0 \<le> k then 2 ^ nat k else 1 / 2 ^ nat (- k))"

text \<open>For a positive \<open>x\<close>, the exponent \<open>e\<close> with \<open>2 ^ e \<le> x < 2 ^ (e + 1)\<close>.\<close>

definition floor_log2 :: "rat \<Rightarrow> int" where
  "floor_log2 x = (if 1 \<le> x then bitlen \<lfloor>x\<rfloor> - 1 else - bitlen (\<lceil>1 / x\<rceil> - 1))"

definition round_double :: "rat \<Rightarrow> rat" where
  "round_double x =
     (if x = 0 then 0
      else (let e = floor_log2 \<bar>x\<bar>; q = pow2 (max (e - 52) (- 1074))
            in of_int (round_half_even (x / q)) * q))"

text \<open>\<open>timedelta.total_seconds()\<close> for a difference of \<open>us\<close> microseconds: the integer
  division \<open>us / 10**6\<close>, correctly rounded.\<close>

definition total_seconds :: "int \<Rightarrow> rat" where
  "total_seconds us = round_double (of_int us / 1000000)"

subsection \<open>Dictionaries, truthiness and comparisons\<close>

text \<open>\<open>d.get(k, default)\<close> on a value: only a dictionary has the method.\<close>

definition py_get :: "pyval \<Rightarrow> string \<Rightarrow> pyval \<Rightarrow> error + pyval" where
  "py_get v k dflt =
     (case v of
        PDict d \<Rightarrow> (case map_of d k of None \<Rightarrow> Inr dflt | Some x \<Rightarrow> Inr x)
      | _ \<Rightarrow> Inl AttributeError)"

text \<open>\<open>v[k]\<close> with a string key: a missing key raises KeyError, a value that is not a
  dictionary raises TypeError (strings and lists want integer indices, the others are not
  subscriptable).\<close>

definition py_getitem :: "pyval \<Rightarrow> string \<Rightarrow> error + pyval" where
  "py_getitem v k =
     (case v of
        PDict d \<Rightarrow> (case map_of d k of None \<Rightarrow> Inl (KeyError (PStr k)) | Some x \<Rightarrow> Inr x)
      | _ \<Rightarrow> Inl TypeError)"

text \<open>Truthiness, as \<open>if last_check:\<close> and \<open>not last_check\<close> test it.\<close>

fun truthy :: "pyval \<Rightarrow> bool" where
  "truthy PNone = False"
| "truthy (PBool b) = b"
| "truthy (PInt n) = (n \<noteq> 0)"
| "truthy (PFloat r) = (round_double r \<noteq> 0)"
| "truthy (PStr s) = (s \<noteq> [])"
| "truthy (PList xs) = (xs \<noteq> [])"
| "truthy (PDict d) = (d \<noteq> [])"

text \<open>The numeric value of a value that Python treats as a number (\<open>bool\<close> is a subclass
  of \<open>int\<close>); the others give \<open>None\<close>.\<close>

fun py_num :: "pyval \<Rightarrow> rat option" where
  "py_num (PInt n) = Some (of_int n)"
| "py_num (PFloat r) = Some (round_double r)"
| "py_num (PBool b) = Some (if b then 1 else 0)"
| "py_num _ = None"

text \<open>\<open>n == v\<close> for an integer \<open>n\<close>: equality with a value that is not a number is
  \<open>False\<close>, never an exception.\<close>

definition py_eq_int :: "int \<Rightarrow> pyval \<Rightarrow> bool" where
  "py_eq_int n v = (case py_num v of None \<Rightarrow> False | Some r \<Rightarrow> of_int n = r)"

text \<open>\<open>x < v\<close> for a float \<open>x\<close>: ordering against a value that is not a number raises
  TypeError.\<close>

definition py_float_lt :: "rat \<Rightarrow> pyval \<Rightarrow> error + bool" where
  "py_float_lt x v = (case py_num v of None \<Rightarrow> Inl TypeError | Some r \<Rightarrow> Inr (x < r))"

section \<open>The \<open>datetime\<close> values the bot uses\<close>

text \<open>
  A \<open>datetime\<close> object is its calendar fields and, when it is aware, its offset from UTC in
  seconds. The library only builds objects whose fields are in range (\<open>valid_datetime\<close>).
\<close>

record datetime =
  year :: int
  month :: int
  day :: int
  hour :: int
  minute :: int
  second :: int
  microsecond :: int
  utcoffset :: "int option"

definition is_leap :: "int \<Rightarrow> bool" where
  "is_leap y = (y mod 4 = 0 \<and> (y mod 100 \<noteq> 0 \<or> y mod 400 = 0))"

definition days_in_month :: "int \<Rightarrow> int \<Rightarrow> int" where
  "days_in_month y m =
     (if m = 2 then (if is_leap y then 29 else 28)
      else if m = 4 \<or> m = 6 \<or> m = 9 \<or> m = 11 then 30 else 31)"

definition days_before_year :: "int \<Rightarrow> int" where
  "days_before_year y =
     (let p = y - 1 in p * 365 + p div 4 - p div 100 + p div 400)"

definition days_before_month :: "int \<Rightarrow> int \<Rightarrow> int" where
  "days_before_month y m = (\<Sum>k\<leftarrow>[1..m - 1]. days_in_month y k)"

definition toordinal :: "datetime \<Rightarrow> int" where
  "toordinal t = days_before_year (year t) + days_before_month (year t) (month t) + day t"

text \<open>\<open>weekday()\<close>: Monday is 0.\<close>

definition weekday :: "datetime \<Rightarrow> int" where
  "weekday t = (toordinal t + 6) mod 7"

definition valid_datetime :: "datetime \<Rightarrow> bool" where
  "valid_datetime t =
     (1 \<le> year t \<and> year t \<le> 9999 \<and> 1 \<le> month t \<and> month t \<le> 12 \<and>
      1 \<le> day t \<and> day t \<le> days_in_month (year t) (month t) \<and>
      0 \<le> hour t \<and> hour t \<le> 23 \<and> 0 \<le> minute t \<and> minute t \<le> 59 \<and>
      0 \<le> second t \<and> second t \<le> 59 \<and> 0 \<le> microsecond t \<and> microsecond t \<le> 999999 \<and>
      (case utcoffset t of None \<Rightarrow> True | Some off \<Rightarrow> - 86400 < off \<and> off < 86400))"

text \<open>Microseconds between the proleptic origin and the local wall-clock reading.\<close>

definition local_micros :: "datetime \<Rightarrow> int" where
  "local_micros t =
     ((toordinal t * 86400 + hour t * 3600 + minute t * 60 + second t) * 1000000)
       + microsecond t"

text \<open>
  \<open>(a - b)\<close>, read in microseconds. Two aware values are compared as instants; an aware
  and a naive value cannot be subtracted (TypeError); two naive values are compared as
  wall-clock readings.
\<close>

definition dt_sub :: "datetime \<Rightarrow> datetime \<Rightarrow> error + int" where
  "dt_sub a b =
     (case (utcoffset a, utcoffset b) of
        (Some oa, Some ob) \<Rightarrow>
          Inr ((local_micros a - oa * 1000000) - (local_micros b - ob * 1000000))
      | (None, None) \<Rightarrow> Inr (local_micros a - local_micros b)
      | _ \<Rightarrow> Inl TypeError)"

subsection \<open>\<open>isoformat\<close> and \<open>fromisoformat\<close>\<close>

text \<open>The ASCII decimal digits are the characters 48 to 57.\<close>

definition digit_char :: "int \<Rightarrow> char" where
  "digit_char n = char_of (48 + n mod 10)"

definition digit_val :: "char \<Rightarrow> int option" where
  "digit_val c =
     (let k = of_char c :: int in if 48 \<le> k \<and> k \<le> 57 then Some (k - 48) else None)"

text \<open>\<open>pad w n\<close> is \<open>n\<close> in exactly \<open>w\<close> decimal digits (\<open>%0wd\<close> for \<open>n < 10 ^ w\<close>).\<close>

fun pad :: "nat \<Rightarrow> int \<Rightarrow> string" where
  "pad 0 n = []"
| "pad (Suc w) n = pad w (n div 10) @ [digit_char n]"

text \<open>The value of a string of decimal digits, most significant first.\<close>

fun digits_val :: "int \<Rightarrow> string \<Rightarrow> int option" where
  "digits_val acc [] = Some acc"
| "digits_val acc (c # cs) =
     (case digit_val c of None \<Rightarrow> None | Some d \<Rightarrow> digits_val (acc * 10 + d) cs)"

definition format_offset :: "int \<Rightarrow> string" where
  "format_offset off =
     (let a = \<bar>off\<bar> in
        (if off < 0 then ''-'' else ''+'') @ pad 2 (a div 3600) @ '':'' @ pad 2 (a div 60 mod 60)
          @ (if a mod 60 = 0 then [] else '':'' @ pad 2 (a mod 60)))"

definition isoformat :: "datetime \<Rightarrow> string" where
  "isoformat t =
     pad 4 (year t) @ ''-'' @ pad 2 (month t) @ ''-'' @ pad 2 (day t) @ ''T'' @
     pad 2 (hour t) @ '':'' @ pad 2 (minute t) @ '':'' @ pad 2 (second t) @
     (if microsecond t = 0 then [] else ''.'' @ pad 6 (microsecond t)) @
     (case utcoffset t of None \<Rightarrow> [] | Some off \<Rightarrow> format_offset off)"

text \<open>
  \<open>fromisoformat\<close> is modelled on the texts \<open>isoformat\<close> writes with whole-minute offsets,
  \<open>YYYY-MM-DDTHH:MM:SS[.ffffff][+HH:MM]\<close>, which are the only timestamps the bot itself
  stores; any other text is a ValueError here (the library reads some further spellings,
  depending on its version).
\<close>

definition parse_offset :: "string \<Rightarrow> error + int option" where
  "parse_offset s =
     (if s = [] then Inr None
      else if length s = 6 \<and> (s ! 0 = CHR ''+'' \<or> s ! 0 = CHR ''-'') \<and> s ! 3 = CHR '':'' then
        (case (digits_val 0 (take 2 (drop 1 s)), digits_val 0 (take 2 (drop 4 s))) of
           (Some h, Some m) \<Rightarrow>
             (let a = h * 3600 + m * 60 in
                if a < 86400 then Inr (Some (if s ! 0 = CHR ''-'' then - a else a))
                else Inl ValueError)
         | _ \<Rightarrow> Inl ValueError)
      else Inl ValueError)"

definition parse_fraction :: "string \<Rightarrow> error + int \<times> string" where
  "parse_fraction s =
     (if s \<noteq> [] \<and> hd s = CHR ''.'' then
        (if length s < 7 then Inl ValueError
         else (case digits_val 0 (take 6 (drop 1 s)) of
                 None \<Rightarrow> Inl ValueError
               | Some us \<Rightarrow> Inr (us, drop 7 s)))
      else Inr (0, s))"

definition fromisoformat :: "string \<Rightarrow> error + datetime" where
  "fromisoformat s =
     (if length s < 19 \<or> s ! 4 \<noteq> CHR ''-'' \<or> s ! 7 \<noteq> CHR ''-'' \<or> s ! 10 \<noteq> CHR ''T'' \<or>
         s ! 13 \<noteq> CHR '':'' \<or> s ! 16 \<noteq> CHR '':'' then Inl ValueError
      else
        (case (digits_val 0 (take 4 s), digits_val 0 (take 2 (drop 5 s)),
               digits_val 0 (take 2 (drop 8 s)), digits_val 0 (take 2 (drop 11 s)),
               digits_val 0 (take 2 (drop 14 s)), digits_val 0 (take 2 (drop 17 s))) of
           (Some y, Some mo, Some d, Some h, Some mi, Some sec) \<Rightarrow>
             (case parse_fraction (drop 19 s) of
                Inl e \<Rightarrow> Inl e
              | Inr (us, rest) \<Rightarrow>
                  (case parse_offset rest of
                     Inl e \<Rightarrow> Inl e
                   | Inr off \<Rightarrow>
                       (let t = \<lparr>year = y, month = mo, day = d, hour = h, minute = mi,
                                  second = sec, microsecond = us, utcoffset = off\<rparr>
                        in if valid_datetime t then Inr t else Inl ValueError)))
         | _ \<Rightarrow> Inl ValueError))"

section \<open>The bot's state and its surroundings\<close>

text \<open>
  The state of \<open>ArjunBot\<close>: the dictionary \<open>self.user_data\<close>, the language-model handler's
  \<open>self.memory\<close>, the file \<open>user_data.json\<close> (\<open>None\<close> when it does not exist), the messages
  delivered so far (recipient and text) and the lines printed. The file is identified with
  the value \<open>json.load\<close> reads from it, and \<open>json.dump\<close> writes a file from which that value
  is read back: the text and its formatting are the library's business. A task's tick and a
  command each run without interference from the other coroutines; writing the file is
  taken to succeed.
\<close>

datatype logline =
    CouldNotFindUser string
  | ErrorInTask string string error
  | AddedNewUser string
  | ErrorGettingResponse error

record bot =
  user_data :: pydict
  memory :: pydict
  disk :: "pyval option"
  outbox :: "(string \<times> string) list"
  console :: "logline list"

text \<open>
  What one iteration of a task, or one handler, reads from outside the program: the clock
  (\<open>datetime.now(timezone.utc)\<close>, the naive \<open>datetime.now()\<close>, and \<open>datetime.now(tz)\<close> for a
  zone), \<open>random.random()\<close>, the index \<open>random.choice\<close> draws, what the messaging platform
  does with a message for the user (deliver it, or raise: \<open>discord.NotFound\<close>, or any other
  exception, \<open>int\<close> rejecting the key included), what the successive calls
  \<open>await self.client.messages.create(...)\<close> of the language-model handler give, and whether
  the time-tracking service accepts the user's key.

  A call of the language-model client either raises or gives a message object with a stop
  reason and content blocks (text, or the use of a tool with its input). The handler builds
  the synchronous client \<open>Anthropic\<close>, whose \<open>create\<close> returns a message that cannot be awaited:
  there the \<open>await\<close> raises TypeError, which is the first case. The second case is what a
  client with an awaitable \<open>create\<close> gives. The error \<open>NoAnswer\<close> stands for a call that has
  not returned (the answers supplied are used up).

  When the time-tracking service accepts the key (\<open>handler.setup()\<close> is true),
  \<open>process_evening_review_response\<close> goes on to \<open>response += ...\<close> and raises, at the latest
  there (\<open>response\<close> is never a string): \<open>clockify\<close> is then the exception, and \<open>None\<close> when
  \<open>setup()\<close> is false.
\<close>

record memory_instructions =
  mi_delete :: "string list option"
  mi_update :: "pydict option"
  mi_add :: "pydict option"

datatype block = TextBlock string | ToolUseBlock string memory_instructions

record api_message =
  stop_reason :: string
  blocks :: "block list"

datatype api_outcome = ApiRaised error | ApiReturned api_message

datatype tzinfo = FixedOffset int

datatype delivery = Delivered | Raised error

record env =
  now_utc :: datetime
  now_local :: datetime
  now_in :: "tzinfo \<Rightarrow> datetime"
  sample :: rat
  pick :: nat
  delivery :: delivery
  api :: "api_outcome list"
  clockify :: "error option"

definition default_config :: pydict where
  "default_config =
     [(''morning_check_hour'', PInt 9),
      (''evening_review_hour'', PInt 21),
      (''weekly_review_day'', PStr ''SUNDAY''),
      (''weekly_review_hour'', PInt 18),
      (''activity_check_interval'', PInt 30),
      (''activity_check_probability'', PFloat (3 / 10)),
      (''timezone'', PStr ''UTC''),
      (''clockify_api_key'', PNone),
      (''clockify_enabled'', PBool False)]"

definition morning_messages :: "string list" where
  "morning_messages =
     [''hey, what are you planning to work on today?'',
      ''what are you thinking of getting done today?'',
      ''hey there, what's the plan for today?'']"

definition evening_messages :: "string list" where
  "evening_messages =
     [''hey, how did your day go?'',
      ''what did you end up working on today?'',
      ''how was your day? what worked/didnt work?'',
      ''lets review what you got done today'']"

definition activity_check_messages :: "string list" where
  "activity_check_messages =
     [''what are you working on rn?'',
      ''hey, hows the current task going?'',
      ''quick check - what are you up to?'']"

text \<open>\<open>random.choice\<close> on a non-empty list, from the index the generator draws.\<close>

definition random_choice :: "nat \<Rightarrow> string list \<Rightarrow> string" where
  "random_choice i xs = xs ! (i mod length xs)"

subsection \<open>\<open>load_data\<close> and \<open>save_data\<close>\<close>

text \<open>\<open>load_data\<close> returns what \<open>json.load\<close> reads, and an empty dictionary when the file
  is missing (FileNotFoundError is the only exception it catches).\<close>

definition load_data :: "pyval option \<Rightarrow> pyval" where
  "load_data f = (case f of None \<Rightarrow> PDict [] | Some doc \<Rightarrow> doc)"

definition save_data :: "bot \<Rightarrow> bot" where
  "save_data s = s\<lparr>disk := Some (PDict (user_data s))\<rparr>"

subsection \<open>Sending a message\<close>

text \<open>\<open>user = await self.fetch_user(int(user_id)); await user.send(text)\<close>. An exception
  leaves the state as it was.\<close>

definition send_dm :: "env \<Rightarrow> string \<Rightarrow> string \<Rightarrow> bot \<Rightarrow> error \<times> bot + bot" where
  "send_dm e uid text s =
     (case delivery e of
        Delivered \<Rightarrow> Inr (s\<lparr>outbox := outbox s @ [(uid, text)]\<rparr>)
      | Raised x \<Rightarrow> Inl (x, s))"

text \<open>The two handlers every task ends with: \<open>except discord.NotFound\<close>, then
  \<open>except Exception\<close>; each prints one line and the loop goes on. An exception carries the
  state at the point where it was raised.\<close>

definition handle :: "string \<Rightarrow> string \<Rightarrow> error \<times> bot + bot \<Rightarrow> bot" where
  "handle task uid r =
     (case r of
        Inr s \<Rightarrow> s
      | Inl (x, s) \<Rightarrow>
          (if x = NotFound then s\<lparr>console := console s @ [CouldNotFindUser uid]\<rparr>
           else s\<lparr>console := console s @ [ErrorInTask task uid x]\<rparr>))"

text \<open>
  The loop of every task, \<open>for user_id, user_data in self.user_data.items()\<close> with the
  \<open>try\<close> statement \<open>f\<close> as its body: the items are those of the dictionary when the tick
  starts (no iteration adds or removes a key, and an iteration assigns only within the
  record of its own user, after reading it); the environment of the iteration for a user
  is \<open>envs user_id\<close>.
\<close>

fun for_each_user ::
    "(env \<Rightarrow> string \<Rightarrow> pyval \<Rightarrow> bot \<Rightarrow> bot) \<Rightarrow> (string \<Rightarrow> env) \<Rightarrow> pydict \<Rightarrow> bot \<Rightarrow> bot" where
  "for_each_user f envs [] s = s"
| "for_each_user f envs ((uid, rec) # rest) s =
     for_each_user f envs rest (f (envs uid) uid rec s)"

section \<open>The activity check\<close>

text \<open>\<open>self.user_data[user_id][key] = v\<close>.\<close>

definition set_user_field :: "string \<Rightarrow> string \<Rightarrow> pyval \<Rightarrow> pydict \<Rightarrow> error + pydict" where
  "set_user_field uid k v ud =
     (case map_of ud uid of
        None \<Rightarrow> Inl (KeyError (PStr uid))
      | Some (PDict r) \<Rightarrow> Inr (AList.update uid (PDict (AList.update k v r)) ud)
      | Some _ \<Rightarrow> Inl TypeError)"

text \<open>\<open>if last_check: last_check = datetime.datetime.fromisoformat(last_check)\<close>: a falsy
  value stays as it is and counts as unset; \<open>fromisoformat\<close> wants a string.\<close>

definition read_last_check :: "pyval \<Rightarrow> error + datetime option" where
  "read_last_check v =
     (if truthy v then
        (case v of
           PStr str \<Rightarrow> (case fromisoformat str of Inl x \<Rightarrow> Inl x | Inr t \<Rightarrow> Inr (Some t))
         | _ \<Rightarrow> Inl TypeError)
      else Inr None)"

text \<open>\<open>config["activity_check_interval"] * 60\<close> as a number: exact for an integer, a float
  product for a float; a string or a list times 60 is a string or a list, and \<open>None\<close> cannot
  be multiplied, so none of them can be compared with a float.\<close>

definition times_60 :: "pyval \<Rightarrow> rat option" where
  "times_60 iv =
     (case iv of
        PInt n \<Rightarrow> Some (of_int (n * 60))
      | PBool b \<Rightarrow> Some (if b then 60 else 0)
      | PFloat r \<Rightarrow> Some (round_double (round_double r * 60))
      | _ \<Rightarrow> None)"

text \<open>
  The test \<open>not last_check or (current_time - last_check).total_seconds() >=
  config["activity_check_interval"] * 60\<close>: the elapsed time as the float \<open>total_seconds()\<close>
  returns, compared exactly with the product. The configuration is only read when
  \<open>last_check\<close> is set.
\<close>

definition check_due :: "pyval \<Rightarrow> datetime option \<Rightarrow> datetime \<Rightarrow> error + bool" where
  "check_due config last_check current_time =
     (case last_check of
        None \<Rightarrow> Inr True
      | Some t \<Rightarrow>
          (case dt_sub current_time t of
             Inl x \<Rightarrow> Inl x
           | Inr us \<Rightarrow>
               (case py_getitem config ''activity_check_interval'' of
                  Inl x \<Rightarrow> Inl x
                | Inr iv \<Rightarrow>
                    (case times_60 iv of
                       None \<Rightarrow> Inl TypeError
                     | Some limit \<Rightarrow> Inr (limit \<le> total_seconds us)))))"

text \<open>Lines 166 to 176 for one user: whether the check is due at \<open>current_time\<close>.\<close>

definition activity_due :: "pyval \<Rightarrow> pyval \<Rightarrow> datetime \<Rightarrow> error + bool" where
  "activity_due config rec current_time =
     (case py_get rec ''last_activity_check'' PNone of
        Inl x \<Rightarrow> Inl x
      | Inr lc \<Rightarrow>
          (case read_last_check lc of
             Inl x \<Rightarrow> Inl x
           | Inr last_check \<Rightarrow> check_due config last_check current_time))"

text \<open>The body of the \<open>try\<close> for one user.\<close>

definition activity_check_body :: "env \<Rightarrow> string \<Rightarrow> pyval \<Rightarrow> bot \<Rightarrow> error \<times> bot + bot" where
  "activity_check_body e uid rec s =
     (case py_get rec ''config'' (PDict default_config) of
        Inl x \<Rightarrow> Inl (x, s)
      | Inr config \<Rightarrow>
     (case activity_due config rec (now_utc e) of
        Inl x \<Rightarrow> Inl (x, s)
      | Inr False \<Rightarrow> Inr s
      | Inr True \<Rightarrow>
     (case py_getitem config ''activity_check_probability'' of
        Inl x \<Rightarrow> Inl (x, s)
      | Inr p \<Rightarrow>
     (case py_float_lt (sample e) p of
        Inl x \<Rightarrow> Inl (x, s)
      | Inr below \<Rightarrow>
     (case (if below
            then send_dm e uid (random_choice (pick e) activity_check_messages) s
            else Inr s) of
        Inl xs \<Rightarrow> Inl xs
      | Inr s1 \<Rightarrow>
     (case set_user_field uid ''last_activity_check'' (PStr (isoformat (now_utc e)))
             (user_data s1) of
        Inl x \<Rightarrow> Inl (x, s1)
      | Inr ud \<Rightarrow> Inr (save_data (s1\<lparr>user_data := ud\<rparr>))))))))"

definition activity_check_user :: "env \<Rightarrow> string \<Rightarrow> pyval \<Rightarrow> bot \<Rightarrow> bot" where
  "activity_check_user e uid rec s =
     handle ''activity check'' uid (activity_check_body e uid rec s)"

definition activity_check :: "(string \<Rightarrow> env) \<Rightarrow> bot \<Rightarrow> bot" where
  "activity_check envs s = for_each_user activity_check_user envs (user_data s) s"

section \<open>The morning, evening and weekly checks\<close>

text \<open>
  \<open>datetime.timezone(offset)\<close> builds a fixed-offset zone from a \<open>datetime.timedelta\<close> and
  raises \<open>TypeError: timezone() argument 1 must be datetime.timedelta\<close> for an argument of
  any other type. The argument here is \<open>config["timezone"]\<close>, a value of the user-data
  dictionary: a string such as \<open>"UTC"\<close>, or another JSON value; none of them is a
  \<open>timedelta\<close>.
\<close>

fun timezone :: "pyval \<Rightarrow> error + tzinfo" where
  "timezone PNone = Inl TypeError"
| "timezone (PBool b) = Inl TypeError"
| "timezone (PInt n) = Inl TypeError"
| "timezone (PFloat r) = Inl TypeError"
| "timezone (PStr name) = Inl TypeError"
| "timezone (PList xs) = Inl TypeError"
| "timezone (PDict d) = Inl TypeError"

text \<open>The test \<open>user_time.hour == config[key] and user_time.minute == 0\<close>.\<close>

definition hour_matches :: "datetime \<Rightarrow> pyval \<Rightarrow> string \<Rightarrow> error + bool" where
  "hour_matches user_time config key =
     (case py_getitem config key of
        Inl x \<Rightarrow> Inl x
      | Inr h \<Rightarrow> Inr (py_eq_int (hour user_time) h \<and> minute user_time = 0))"

definition daily_check_body ::
    "string \<Rightarrow> string list \<Rightarrow> env \<Rightarrow> string \<Rightarrow> pyval \<Rightarrow> bot \<Rightarrow> error \<times> bot + bot" where
  "daily_check_body key msgs e uid rec s =
     (case py_get rec ''config'' (PDict default_config) of
        Inl x \<Rightarrow> Inl (x, s)
      | Inr config \<Rightarrow>
     (case py_getitem config ''timezone'' of
        Inl x \<Rightarrow> Inl (x, s)
      | Inr tzname \<Rightarrow>
     (case timezone tzname of
        Inl x \<Rightarrow> Inl (x, s)
      | Inr user_tz \<Rightarrow>
     (case hour_matches (now_in e user_tz) config key of
        Inl x \<Rightarrow> Inl (x, s)
      | Inr False \<Rightarrow> Inr s
      | Inr True \<Rightarrow> send_dm e uid (random_choice (pick e) msgs) s))))"

definition morning_check_user :: "env \<Rightarrow> string \<Rightarrow> pyval \<Rightarrow> bot \<Rightarrow> bot" where
  "morning_check_user e uid rec s =
     handle ''morning check'' uid
       (daily_check_body ''morning_check_hour'' morning_messages e uid rec s)"

definition evening_review_user :: "env \<Rightarrow> string \<Rightarrow> pyval \<Rightarrow> bot \<Rightarrow> bot" where
  "evening_review_user e uid rec s =
     handle ''evening review'' uid
       (daily_check_body ''evening_review_hour'' evening_messages e uid rec s)"

definition morning_check :: "(string \<Rightarrow> env) \<Rightarrow> bot \<Rightarrow> bot" where
  "morning_check envs s = for_each_user morning_check_user envs (user_data s) s"

definition evening_review :: "(string \<Rightarrow> env) \<Rightarrow> bot \<Rightarrow> bot" where
  "evening_review envs s = for_each_user evening_review_user envs (user_data s) s"

definition day_map :: "(string \<times> int) list" where
  "day_map =
     [(''MON'', 0), (''TUE'', 1), (''WED'', 2), (''THU'', 3),
      (''FRI'', 4), (''SAT'', 5), (''SUN'', 6)]"

text \<open>\<open>day_map[v]\<close>: a list or a dictionary is not hashable (TypeError); any other value
  that is not one of the seven keys is a KeyError.\<close>

definition day_map_lookup :: "pyval \<Rightarrow> error + int" where
  "day_map_lookup v =
     (case v of
        PStr d \<Rightarrow> (case map_of day_map d of None \<Rightarrow> Inl (KeyError v) | Some n \<Rightarrow> Inr n)
      | PList xs \<Rightarrow> Inl TypeError
      | PDict d \<Rightarrow> Inl TypeError
      | _ \<Rightarrow> Inl (KeyError v))"

definition weekly_message :: string where
  "weekly_message = ''Time for our weekly review! How did your week go?''"

definition weekly_review_body :: "env \<Rightarrow> string \<Rightarrow> pyval \<Rightarrow> bot \<Rightarrow> error \<times> bot + bot" where
  "weekly_review_body e uid rec s =
     (case py_get rec ''config'' (PDict default_config) of
        Inl x \<Rightarrow> Inl (x, s)
      | Inr config \<Rightarrow>
     (case py_getitem config ''timezone'' of
        Inl x \<Rightarrow> Inl (x, s)
      | Inr tzname \<Rightarrow>
     (case timezone tzname of
        Inl x \<Rightarrow> Inl (x, s)
      | Inr user_tz \<Rightarrow>
     (case py_getitem config ''weekly_review_day'' of
        Inl x \<Rightarrow> Inl (x, s)
      | Inr dayname \<Rightarrow>
     (case day_map_lookup dayname of
        Inl x \<Rightarrow> Inl (x, s)
      | Inr wd \<Rightarrow>
          (if weekday (now_in e user_tz) = wd then
             (case hour_matches (now_in e user_tz) config ''weekly_review_hour'' of
                Inl x \<Rightarrow> Inl (x, s)
              | Inr False \<Rightarrow> Inr s
              | Inr True \<Rightarrow> send_dm e uid weekly_message s)
           else Inr s))))))"

definition weekly_review_check_user :: "env \<Rightarrow> string \<Rightarrow> pyval \<Rightarrow> bot \<Rightarrow> bot" where
  "weekly_review_check_user e uid rec s =
     handle ''weekly review check'' uid (weekly_review_body e uid rec s)"

definition weekly_review_check :: "(string \<Rightarrow> env) \<Rightarrow> bot \<Rightarrow> bot" where
  "weekly_review_check envs s = for_each_user weekly_review_check_user envs (user_data s) s"

section \<open>Opting in and out\<close>

text \<open>\<open>str(user_id)\<close> for an integer.\<close>

function str_digits :: "int \<Rightarrow> string" where
  "str_digits n = (if n < 10 then [digit_char n] else str_digits (n div 10) @ [digit_char n])"
  by pat_completeness auto
termination
  by (relation "measure nat") auto

declare str_digits.simps [simp del]

definition py_str_int :: "int \<Rightarrow> string" where
  "py_str_int i = (if i < 0 then CHR ''-'' # str_digits (- i) else str_digits i)"

definition new_record :: "datetime \<Rightarrow> pyval" where
  "new_record now =
     PDict [(''joined_date'', PStr (isoformat now)),
            (''weekly_plans'', PList []),
            (''daily_logs'', PList []),
            (''last_interaction'', PNone),
            (''last_activity_check'', PNone),
            (''config'', PDict default_config)]"

definition add_user :: "env \<Rightarrow> int \<Rightarrow> bot \<Rightarrow> bot" where
  "add_user e user_id s =
     (if map_of (user_data s) (py_str_int user_id) = None then
        (let s1 = save_data
                    (s\<lparr>user_data :=
                         AList.update (py_str_int user_id) (new_record (now_local e)) (user_data s)\<rparr>)
         in s1\<lparr>console := console s1 @ [AddedNewUser (py_str_int user_id)]\<rparr>)
      else s)"

text \<open>What a command answers to the user who invoked it.\<close>

datatype reply = AlreadyConnected | Welcome | TakingABreak | NotStartedYet

definition begin_tracking :: "env \<Rightarrow> int \<Rightarrow> bot \<Rightarrow> bot \<times> reply" where
  "begin_tracking e user_id s =
     (if map_of (user_data s) (py_str_int user_id) \<noteq> None then (s, AlreadyConnected)
      else (add_user e user_id s, Welcome))"

definition stop :: "int \<Rightarrow> bot \<Rightarrow> bot \<times> reply" where
  "stop uid s =
     (let user_id = py_str_int uid in
        if map_of (user_data s) user_id \<noteq> None then
          (save_data (s\<lparr>user_data := AList.delete user_id (user_data s)\<rparr>), TakingABreak)
        else (s, NotStartedYet))"

section \<open>Inbound messages\<close>

subsection \<open>\<open>_process_memory_instructions\<close>\<close>

text \<open>
  The handler's \<open>self.memory\<close> is changed by \<open>_process_memory_instructions\<close> alone:
  the keys under \<open>delete\<close> are removed when present, then the items under \<open>update\<close> and
  those under \<open>add\<close> are assigned. The instructions are taken in the form the docstring
  gives (a list of string keys, and two dictionaries); the summary string the method
  returns is left out.
\<close>

definition delete_keys :: "string list \<Rightarrow> pydict \<Rightarrow> pydict" where
  "delete_keys ks mem = fold (\<lambda>key m. if map_of m key \<noteq> None then AList.delete key m else m) ks mem"

definition assign_items :: "pydict \<Rightarrow> pydict \<Rightarrow> pydict" where
  "assign_items items mem = fold (\<lambda>(key, val) m. AList.update key val m) items mem"

definition process_memory_instructions :: "memory_instructions \<Rightarrow> bot \<Rightarrow> bot" where
  "process_memory_instructions mi s =
     (let m1 = (case mi_delete mi of None \<Rightarrow> memory s | Some ks \<Rightarrow> delete_keys ks (memory s));
          m2 = (case mi_update mi of None \<Rightarrow> m1 | Some items \<Rightarrow> assign_items items m1);
          m3 = (case mi_add mi of None \<Rightarrow> m2 | Some items \<Rightarrow> assign_items items m2)
      in s\<lparr>memory := m3\<rparr>)"

subsection \<open>The language-model handler\<close>

text \<open>
  \<open>_get_user_context\<close> reads \<open>weekly_plans\<close> and \<open>daily_logs\<close> and builds a string; only
  its exceptions matter here. \<open>daily_logs[-5:]\<close> needs a list or a string (a number is not
  subscriptable, and a dictionary cannot be sliced: TypeError, a KeyError from Python 3.12
  on); \<open>weekly_plans[-1]\<close> likewise, and on a dictionary it is a missing key.
\<close>

fun last_five :: "pyval \<Rightarrow> error + unit" where
  "last_five (PList xs) = Inr ()"
| "last_five (PStr str) = Inr ()"
| "last_five v = Inl TypeError"

fun last_item :: "pyval \<Rightarrow> error + unit" where
  "last_item (PList xs) = Inr ()"
| "last_item (PStr str) = Inr ()"
| "last_item (PDict d) = Inl (KeyError (PInt (- 1)))"
| "last_item v = Inl TypeError"

definition get_user_context :: "pyval \<Rightarrow> error + unit" where
  "get_user_context rec =
     (case py_get rec ''weekly_plans'' (PList []) of
        Inl x \<Rightarrow> Inl x
      | Inr weekly_plans \<Rightarrow>
     (case py_get rec ''daily_logs'' (PList []) of
        Inl x \<Rightarrow> Inl x
      | Inr daily_logs \<Rightarrow>
     (case (if truthy daily_logs then last_five daily_logs else Inr ()) of
        Inl x \<Rightarrow> Inl x
      | Inr u \<Rightarrow> (if truthy weekly_plans then last_item weekly_plans else Inr ()))))"

text \<open>
  What \<open>_get_claude_response\<close> returns: the dictionary
  \<open>{"content": "sorry, having trouble processing that rn. could you try again?"}\<close> of its
  \<open>except\<close> clause, or the message object it got from the client. It never returns a string.
\<close>

datatype response = FallbackDict | MessageObject api_message

fun first_tool_use :: "block list \<Rightarrow> (string \<times> memory_instructions) option" where
  "first_tool_use [] = None"
| "first_tool_use (TextBlock txt # bs) = first_tool_use bs"
| "first_tool_use (ToolUseBlock name input # bs) = Some (name, input)"

text \<open>
  \<open>_get_claude_response\<close>, with the outcomes of its calls of the client. An exception in
  the \<open>try\<close> is printed and gives the dictionary. With the stop reason \<open>tool_use\<close>, the
  first tool-use block is executed: for \<open>update_memory\<close>, \<open>_execute_tool\<close> calls
  \<open>_process_memory_instructions\<close> (a plain method: it runs and returns a string) and awaits
  the string, which raises TypeError, caught by the same \<open>except\<close>; for another tool name
  an error text is the tool's result and the function calls itself.
\<close>

fun get_claude_response :: "api_outcome list \<Rightarrow> bot \<Rightarrow> error \<times> bot + response \<times> bot" where
  "get_claude_response [] s = Inl (NoAnswer, s)"
| "get_claude_response (ApiRaised x # rest) s =
     Inr (FallbackDict, s\<lparr>console := console s @ [ErrorGettingResponse x]\<rparr>)"
| "get_claude_response (ApiReturned msg # rest) s =
     (if stop_reason msg = ''tool_use'' then
        (case first_tool_use (blocks msg) of
           None \<Rightarrow> Inr (MessageObject msg, s)
         | Some (name, input) \<Rightarrow>
             (if name = ''update_memory'' then
                (let s1 = process_memory_instructions input s in
                   Inr (FallbackDict,
                        s1\<lparr>console := console s1 @ [ErrorGettingResponse TypeError]\<rparr>))
              else get_claude_response rest s))
      else Inr (MessageObject msg, s))"

text \<open>
  \<open>process_evening_review_response\<close> for the user \<open>user_id\<close>:
  \<open>llm_handler.process_evening_review\<close> (the context, then \<open>_get_claude_response\<close>), then
  the time-tracking report when the user's configuration enables it.
\<close>

definition process_evening_review_response ::
    "env \<Rightarrow> string \<Rightarrow> bot \<Rightarrow> error \<times> bot + response \<times> bot" where
  "process_evening_review_response e user_id s =
     (case map_of (user_data s) user_id of
        None \<Rightarrow> Inl (KeyError (PStr user_id), s)
      | Some rec \<Rightarrow>
     (case get_user_context rec of
        Inl x \<Rightarrow> Inl (x, s)
      | Inr u \<Rightarrow>
     (case get_claude_response (api e) s of
        Inl xs \<Rightarrow> Inl xs
      | Inr (response, s1) \<Rightarrow>
     (case py_get rec ''config'' (PDict []) of
        Inl x \<Rightarrow> Inl (x, s1)
      | Inr config \<Rightarrow>
     (case py_get config ''clockify_enabled'' PNone of
        Inl x \<Rightarrow> Inl (x, s1)
      | Inr enabled \<Rightarrow>
          (if truthy enabled then
             (case py_get config ''clockify_api_key'' PNone of
                Inl x \<Rightarrow> Inl (x, s1)
              | Inr key \<Rightarrow>
                  (if truthy key then
                     (case clockify e of
                        None \<Rightarrow> Inr (response, s1)
                      | Some x \<Rightarrow> Inl (x, s1))
                   else Inr (response, s1)))
           else Inr (response, s1)))))))"

subsection \<open>\<open>on_message\<close>\<close>

text \<open>
  \<open>if response:\<close> holds for both kinds of response (a dictionary with a key, and an
  object without \<open>__bool__\<close> or \<open>__len__\<close>). \<open>marker in response\<close> on the dictionary asks for
  a key; on the message object (a pydantic model) it goes through the pairs of field name
  and value, none of which equals a string.
\<close>

fun response_truthy :: "response \<Rightarrow> bool" where
  "response_truthy FallbackDict = True"
| "response_truthy (MessageObject msg) = True"

fun marker_in :: "string \<Rightarrow> response \<Rightarrow> bool" where
  "marker_in marker FallbackDict = (marker = ''content'')"
| "marker_in marker (MessageObject msg) = False"

record message =
  from_self :: bool
  in_dm :: bool
  author_id :: int

text \<open>
  Lines 543 to 578. Had one of the three markers been found, the string methods called
  next (\<open>find\<close>, \<open>replace\<close>) would be missing on the response: AttributeError. The
  source does nothing with a memory update beyond cutting it out of the text
  (\<open># TODO: Process memory update\<close>). The result holds what was passed to
  \<open>message.channel.send\<close>, if anything; the text the platform makes of that object is
  not among the texts of \<open>outbox\<close>.
\<close>

definition on_message :: "env \<Rightarrow> message \<Rightarrow> bot \<Rightarrow> error \<times> bot + bot \<times> response option" where
  "on_message e m s =
     (if from_self m then Inr (s, None)
      else if in_dm m then
        (let user_id = py_str_int (author_id m) in
           if map_of (user_data s) user_id \<noteq> None then
             (case set_user_field user_id ''last_interaction'' (PStr (isoformat (now_local e)))
                     (user_data s) of
                Inl x \<Rightarrow> Inl (x, s)
              | Inr ud \<Rightarrow>
                  (case process_evening_review_response e user_id (s\<lparr>user_data := ud\<rparr>) of
                     Inl xs \<Rightarrow> Inl xs
                   | Inr (response, s1) \<Rightarrow>
                       (if response_truthy response then
                          (if marker_in ''MEMORY_UPDATE:'' response then Inl (AttributeError, s1)
                           else if marker_in ''END_CONVERSATION: true'' response
                           then Inl (AttributeError, s1)
                           else if marker_in ''END_CONVERSATION: false'' response
                           then Inl (AttributeError, s1)
                           else (case delivery e of
                                   Delivered \<Rightarrow> Inr (save_data s1, Some response)
                                 | Raised x \<Rightarrow> Inl (x, s1)))
                        else Inr (save_data s1, None))))
           else Inr (s, None))
      else Inr (s, None))"

section \<open>Runs of the bot\<close>

text \<open>The commands, ticks and messages modelled above, one after the other. An exception
  that leaves \<open>on_message\<close> ends that handler only.\<close>

datatype event =
    Begin env int
  | Stop int
  | ActivityTick "string \<Rightarrow> env"
  | MorningTick "string \<Rightarrow> env"
  | EveningTick "string \<Rightarrow> env"
  | WeeklyTick "string \<Rightarrow> env"
  | Inbound env message

fun step :: "event \<Rightarrow> bot \<Rightarrow> bot" where
  "step (Begin e uid) s = fst (begin_tracking e uid s)"
| "step (Stop uid) s = fst (stop uid s)"
| "step (ActivityTick envs) s = activity_check envs s"
| "step (MorningTick envs) s = morning_check envs s"
| "step (EveningTick envs) s = evening_review envs s"
| "step (WeeklyTick envs) s = weekly_review_check envs s"
| "step (Inbound e m) s =
     (case on_message e m s of Inl (x, s') \<Rightarrow> s' | Inr (s', sent) \<Rightarrow> s')"

fun run :: "event list \<Rightarrow> bot \<Rightarrow> bot" where
  "run [] s = s"
| "run (ev # evs) s = run evs (step ev s)"

text \<open>Whether a user has opted in after a run: the last of the user's \<open>/begin\<close> and
  \<open>/stop\<close> commands decides, and the state before the run when there is none.\<close>

fun opted_in :: "event list \<Rightarrow> int \<Rightarrow> bool \<Rightarrow> bool" where
  "opted_in [] uid b = b"
| "opted_in (Begin e u # evs) uid b = opted_in evs uid (if u = uid then True else b)"
| "opted_in (Stop u # evs) uid b = opted_in evs uid (if u = uid then False else b)"
| "opted_in (ev # evs) uid b = opted_in evs uid b"

section \<open>Concrete inputs\<close>

text \<open>The inputs at which the results below are evaluated: Monday 1 January 2024 at a
  given hour and minute (UTC), an environment that reads that clock in every zone, a
  record with a given configuration and last activity check, and a bot that tracks given
  users and has sent and printed nothing.\<close>

definition monday_at :: "int \<Rightarrow> int \<Rightarrow> datetime" where
  "monday_at h m =
     \<lparr>year = 2024, month = 1, day = 1, hour = h, minute = m, second = 0, microsecond = 0,
      utcoffset = Some 0\<rparr>"

definition clock_env :: "datetime \<Rightarrow> rat \<Rightarrow> delivery \<Rightarrow> env" where
  "clock_env t x d =
     \<lparr>now_utc = t, now_local = t\<lparr>utcoffset := None\<rparr>, now_in = (\<lambda>tz. t), sample = x,
      pick = 0, delivery = d, api = [], clockify = None\<rparr>"

definition every_user :: "env \<Rightarrow> string \<Rightarrow> env" where
  "every_user e uid = e"

definition user_record :: "pydict \<Rightarrow> pyval \<Rightarrow> pydict" where
  "user_record config last_check =
     [(''joined_date'', PStr ''2023-12-31T08:00:00''),
      (''weekly_plans'', PList []),
      (''daily_logs'', PList []),
      (''last_interaction'', PNone),
      (''last_activity_check'', last_check),
      (''config'', PDict config)]"

definition tracking :: "pydict \<Rightarrow> bot" where
  "tracking ud = \<lparr>user_data = ud, memory = [], disk = Some (PDict ud), outbox = [], console = []\<rparr>"

section \<open>Lemmas on floats\<close>

lemma pow2_pos: "0 < pow2 k"
  by (simp add: pow2_def)

lemma pow2_mono: "a \<le> b \<Longrightarrow> pow2 a \<le> pow2 b"
proof -
  assume ab: "a \<le> b"
  have *: "pow2 (k + int n) = pow2 k * 2 ^ n" for k n
  proof (cases "0 \<le> k")
    case True
    then show ?thesis by (simp add: pow2_def nat_add_distrib power_add)
  next
    case False
    show ?thesis
    proof (cases "0 \<le> k + int n")
      case True
      with False have "n = nat (- k) + nat (k + int n)" by linarith
      then have "(2::rat) ^ n = 2 ^ nat (- k) * 2 ^ nat (k + int n)"
        by (metis power_add)
      with True False show ?thesis by (simp add: pow2_def)
    next
      case F2: False
      with False have "nat (- k) = n + nat (- (k + int n))" by linarith
      then have "(2::rat) ^ nat (- k) = 2 ^ n * 2 ^ nat (- (k + int n))"
        by (metis power_add)
      with F2 False show ?thesis by (simp add: pow2_def)
    qed
  qed
  from ab obtain n where "b = a + int n"
    by (metis zle_iff_zadd)
  then have "pow2 b = pow2 a * 2 ^ n" using * by simp
  moreover have "(1::rat) \<le> 2 ^ n" by simp
  ultimately show ?thesis
    using pow2_pos [of a] by (simp add: mult_le_cancel_left1)
qed

lemma int_le_pow2: "(c::int) \<le> 2 ^ n \<Longrightarrow> rat_of_int c \<le> 2 ^ n"
  using of_int_le_iff [of c "2 ^ n", where ?'a = rat] by simp

lemma pow2_le_int: "2 ^ n \<le> (c::int) \<Longrightarrow> 2 ^ n \<le> rat_of_int c"
  using of_int_le_iff [of "2 ^ n" c, where ?'a = rat] by simp

lemma floor_log2_bounds:
  assumes "0 < x"
  shows "pow2 (floor_log2 x) \<le> x \<and> x < pow2 (floor_log2 x + 1)"
proof (cases "1 \<le> x")
  case True
  define n where "n = \<lfloor>x\<rfloor>"
  have n: "0 < n" using True by (simp add: n_def)
  from bitlen_bounds [OF n] have b: "2 ^ nat (bitlen n - 1) \<le> n" "n < 2 ^ nat (bitlen n)"
    by simp_all
  have b1: "1 \<le> bitlen n"
    using n bitlen_eq_zero_iff [of n] bitlen_nonneg [of n] by linarith
  have "2 ^ nat (bitlen n - 1) \<le> rat_of_int n"
    using b(1) by (rule pow2_le_int)
  also have "\<dots> \<le> x" by (simp add: n_def)
  finally have lo: "2 ^ nat (bitlen n - 1) \<le> x" .
  have "n + 1 \<le> 2 ^ nat (bitlen n)" using b(2) by simp
  then have "rat_of_int (n + 1) \<le> 2 ^ nat (bitlen n)"
    by (rule int_le_pow2)
  moreover have "x < rat_of_int (n + 1)"
    unfolding n_def by linarith
  ultimately have hi: "x < 2 ^ nat (bitlen n)" by linarith
  from lo hi b1 True show ?thesis
    by (simp add: floor_log2_def pow2_def n_def [symmetric])
next
  case False
  define c where "c = \<lceil>1 / x\<rceil>"
  have y: "1 < 1 / x" using False assms by simp
  then have c2: "2 \<le> c" unfolding c_def by linarith
  then have c1: "0 < c - 1" by simp
  define k where "k = bitlen (c - 1)"
  from bitlen_bounds [OF c1] have b: "2 ^ nat (k - 1) \<le> c - 1" "c - 1 < 2 ^ nat k"
    by (simp_all add: k_def)
  have k1: "1 \<le> k"
    using c1 bitlen_eq_zero_iff [of "c - 1"] bitlen_nonneg [of "c - 1"] unfolding k_def by linarith
  have "c \<le> 2 ^ nat k" using b(2) by simp
  then have "rat_of_int c \<le> 2 ^ nat k" by (rule int_le_pow2)
  moreover have "1 / x \<le> rat_of_int c" by (simp add: c_def)
  ultimately have "1 / x \<le> 2 ^ nat k" by linarith
  then have lo: "1 / 2 ^ nat k \<le> x"
    using assms by (simp add: field_simps)
  have "2 ^ nat (k - 1) \<le> rat_of_int (c - 1)"
    using b(1) by (rule pow2_le_int)
  moreover have "rat_of_int (c - 1) < 1 / x"
    unfolding c_def by linarith
  ultimately have "2 ^ nat (k - 1) < 1 / x" by linarith
  then have hi: "x < 1 / 2 ^ nat (k - 1)"
    using assms by (simp add: field_simps)
  have e: "floor_log2 x = - k"
    using False by (simp add: floor_log2_def c_def k_def)
  have p1: "pow2 (- k) = 1 / 2 ^ nat k" using k1 by (simp add: pow2_def)
  have p2: "pow2 (1 - k) = 1 / 2 ^ nat (k - 1)"
  proof (cases "k = 1")
    case True then show ?thesis by (simp add: pow2_def)
  next
    case False
    with k1 have "\<not> 0 \<le> 1 - k" "nat (- (1 - k)) = nat (k - 1)" by simp_all
    then show ?thesis by (simp add: pow2_def)
  qed
  from lo hi show ?thesis by (simp add: e p1 p2)
qed

lemma round_half_even_ge: "of_int M \<le> y \<Longrightarrow> M \<le> round_half_even y"
proof -
  assume "of_int M \<le> y"
  then have "M \<le> \<lfloor>y\<rfloor>" by (simp add: le_floor_iff)
  then show ?thesis by (simp add: round_half_even_def Let_def)
qed

lemma round_half_even_le: "y < of_int M - 1 / 2 \<Longrightarrow> round_half_even y \<le> M - 1"
proof -
  assume a: "y < of_int M - 1 / 2"
  then have "y < of_int M" by linarith
  then have n: "\<lfloor>y\<rfloor> \<le> M - 1" by (simp add: floor_less_iff)
  show ?thesis
  proof (cases "\<lfloor>y\<rfloor> = M - 1")
    case True
    then have "y - of_int \<lfloor>y\<rfloor> < 1 / 2" using a by simp
    with True show ?thesis by (simp add: round_half_even_def Let_def)
  next
    case False
    with n have "\<lfloor>y\<rfloor> + 1 \<le> M - 1" by simp
    then show ?thesis by (simp add: round_half_even_def Let_def)
  qed
qed

lemma round_half_even_int: "round_half_even (of_int M) = M"
  by (simp add: round_half_even_def)

lemma round_half_even_neg: "y < 0 \<Longrightarrow> round_half_even y \<le> 0"
  using round_half_even_le [of y 1] by simp

lemma round_double_nonpos: "x \<le> 0 \<Longrightarrow> round_double x \<le> 0"
proof (cases "x = 0")
  case True then show ?thesis by (simp add: round_double_def)
next
  case False
  assume "x \<le> 0"
  with False have x: "x < 0" by simp
  define q where "q = pow2 (max (floor_log2 \<bar>x\<bar> - 52) (- 1074))"
  have q: "0 < q" by (simp add: q_def pow2_pos)
  then have "x / q < 0" using x by (simp add: divide_neg_pos)
  then have "round_half_even (x / q) \<le> 0" by (rule round_half_even_neg)
  then have "rat_of_int (round_half_even (x / q)) * q \<le> 0"
    using q by (simp add: mult_le_0_iff)
  then show ?thesis using False by (simp add: round_double_def Let_def q_def)
qed


lemma pow2_neg: "k \<le> 0 \<Longrightarrow> pow2 k = 1 / 2 ^ nat (- k)"
  by (cases "k = 0") (simp_all add: pow2_def)

lemma pow2_nonneg: "0 \<le> k \<Longrightarrow> pow2 k = 2 ^ nat k"
  by (simp add: pow2_def)

text \<open>A value of at least one lies in a binade with a non-negative exponent.\<close>

lemma floor_log2_nonneg: "1 \<le> x \<Longrightarrow> 0 \<le> floor_log2 x"
proof (rule ccontr)
  assume x: "1 \<le> x" and "\<not> 0 \<le> floor_log2 x"
  then have "floor_log2 x + 1 \<le> 0" by simp
  then have "pow2 (floor_log2 x + 1) \<le> pow2 0" by (rule pow2_mono)
  moreover have "x < pow2 (floor_log2 x + 1)"
    using floor_log2_bounds [of x] x by simp
  ultimately show False using x by (simp add: pow2_def)
qed

text \<open>Rounding with quantum \<open>1 / 2 ^ k\<close> keeps a value on the same side of an integer, or of
  an integer less half a quantum.\<close>

lemma scaled_round_ge:
  assumes "rat_of_int N \<le> x"
  shows "rat_of_int N \<le> rat_of_int (round_half_even (x / (1 / 2 ^ k))) * (1 / 2 ^ k)"
proof -
  have "rat_of_int (N * 2 ^ k) \<le> x / (1 / 2 ^ k)"
    using assms by simp
  then have "N * 2 ^ k \<le> round_half_even (x / (1 / 2 ^ k))"
    by (rule round_half_even_ge)
  then have "rat_of_int (N * 2 ^ k) \<le> rat_of_int (round_half_even (x / (1 / 2 ^ k)))"
    by (simp only: of_int_le_iff)
  then show ?thesis
    by (simp add: field_simps)
qed

lemma scaled_round_less:
  assumes x: "x \<le> rat_of_int N - 1 / 1000000" and k: "19 \<le> k"
  shows "rat_of_int (round_half_even (x / (1 / 2 ^ k))) * (1 / 2 ^ k) < rat_of_int N"
proof -
  have "(2::rat) ^ 19 \<le> 2 ^ k"
    using k by (intro power_increasing) simp_all
  then have big: "(500000::rat) < 2 ^ k" by simp
  have "x * 2 ^ k \<le> (rat_of_int N - 1 / 1000000) * 2 ^ k"
    using x by (simp add: mult_right_mono)
  also have "\<dots> = rat_of_int (N * 2 ^ k) - 2 ^ k / 1000000"
    by (simp add: algebra_simps)
  also have "\<dots> < rat_of_int (N * 2 ^ k) - 1 / 2"
    using big by simp
  finally have "x / (1 / 2 ^ k) < rat_of_int (N * 2 ^ k) - 1 / 2"
    by simp
  then have "round_half_even (x / (1 / 2 ^ k)) \<le> N * 2 ^ k - 1"
    by (rule round_half_even_le)
  then have "rat_of_int (round_half_even (x / (1 / 2 ^ k))) \<le> rat_of_int (N * 2 ^ k - 1)"
    by (simp only: of_int_le_iff)
  then have "rat_of_int (round_half_even (x / (1 / 2 ^ k))) * (1 / 2 ^ k)
      \<le> rat_of_int (N * 2 ^ k - 1) * (1 / 2 ^ k)"
    by (intro mult_right_mono) simp_all
  also have "\<dots> = rat_of_int N - 1 / 2 ^ k"
    by (simp add: field_simps)
  also have "\<dots> < rat_of_int N"
    by simp
  finally show ?thesis .
qed

lemma round_double_ge:
  assumes N: "1 \<le> N" "N \<le> 2 ^ 34" and x: "rat_of_int N \<le> x"
  shows "rat_of_int N \<le> round_double x"
proof -
  have x1: "1 \<le> x" using N(1) x by linarith
  then have x0: "x \<noteq> 0" "\<bar>x\<bar> = x" by simp_all
  define e where "e = floor_log2 x"
  have e0: "0 \<le> e" unfolding e_def using x1 by (rule floor_log2_nonneg)
  have lo: "pow2 e \<le> x"
    using floor_log2_bounds [of x] x1 by (simp add: e_def)
  have rd: "round_double x = rat_of_int (round_half_even (x / pow2 (e - 52))) * pow2 (e - 52)"
    using e0 by (simp add: round_double_def Let_def x0 e_def [symmetric] max_def)
  show ?thesis
  proof (cases "e \<le> 52")
    case True
    then have "pow2 (e - 52) = 1 / 2 ^ nat (52 - e)"
      using pow2_neg [of "e - 52"] by simp
    with scaled_round_ge [OF x, of "nat (52 - e)"] show ?thesis
      by (simp only: rd)
  next
    case False
    define j where "j = nat (e - 52)"
    have q: "pow2 (e - 52) = 2 ^ j"
      using False by (simp add: pow2_nonneg j_def)
    have "nat e = 52 + j" using False by (simp add: j_def)
    then have "pow2 e = 2 ^ 52 * 2 ^ j"
      using e0 by (simp add: pow2_nonneg power_add)
    with lo have "rat_of_int (2 ^ 52) \<le> x / 2 ^ j"
      by (simp add: field_simps)
    then have "2 ^ 52 \<le> round_half_even (x / 2 ^ j)"
      by (rule round_half_even_ge)
    then have "rat_of_int (2 ^ 52) \<le> rat_of_int (round_half_even (x / 2 ^ j))"
      by (simp only: of_int_le_iff)
    then have "rat_of_int (2 ^ 52) * 1 \<le> rat_of_int (round_half_even (x / 2 ^ j)) * 2 ^ j"
      by (intro mult_mono) simp_all
    moreover have "rat_of_int N \<le> rat_of_int (2 ^ 52)"
      using N(2) by (simp only: of_int_le_iff) simp
    ultimately show ?thesis
      by (simp add: rd q)
  qed
qed

lemma round_double_less:
  assumes N: "1 \<le> N" "N \<le> 2 ^ 34"
    and lo: "1 / 1000000 \<le> x" and hi: "x \<le> rat_of_int N - 1 / 1000000"
  shows "round_double x < rat_of_int N"
proof -
  have x0: "x \<noteq> 0" "\<bar>x\<bar> = x" "0 < x" using lo by simp_all
  define e where "e = floor_log2 x"
  have b: "pow2 e \<le> x" "x < pow2 (e + 1)"
    using floor_log2_bounds [of x] x0 by (simp_all add: e_def)
  have e_hi: "e \<le> 33"
  proof (rule ccontr)
    assume "\<not> e \<le> 33"
    then have "pow2 34 \<le> pow2 e" by (intro pow2_mono) simp
    moreover have "rat_of_int N \<le> 2 ^ 34" using N(2) by (rule int_le_pow2)
    ultimately show False using b(1) hi by (simp add: pow2_def)
  qed
  have e_lo: "- 20 \<le> e"
  proof (rule ccontr)
    assume "\<not> - 20 \<le> e"
    then have "pow2 (e + 1) \<le> pow2 (- 20)" by (intro pow2_mono) simp
    then show False using b(2) lo by (simp add: pow2_def)
  qed
  have q: "pow2 (max (e - 52) (- 1074)) = 1 / 2 ^ nat (52 - e)"
    using e_lo e_hi pow2_neg [of "e - 52"] by (simp add: max_def)
  have k: "19 \<le> nat (52 - e)" using e_hi by simp
  have "round_double x =
      rat_of_int (round_half_even (x / (1 / 2 ^ nat (52 - e)))) * (1 / 2 ^ nat (52 - e))"
    by (simp only: round_double_def Let_def x0 e_def [symmetric] q if_False)
  with scaled_round_less [OF hi k] show ?thesis
    by simp
qed

text \<open>For a threshold of at most \<open>2 ^ 34\<close> whole seconds, comparing the float
  \<open>total_seconds()\<close> with the threshold is comparing the microseconds exactly.\<close>

lemma total_seconds_ge_iff:
  assumes N: "1 \<le> N" "N \<le> 2 ^ 34"
  shows "(rat_of_int N \<le> total_seconds us) = (N * 1000000 \<le> us)"
proof (cases "N * 1000000 \<le> us")
  case True
  then have "rat_of_int (N * 1000000) \<le> rat_of_int us"
    by (simp only: of_int_le_iff)
  then have "rat_of_int N \<le> rat_of_int us / 1000000"
    by (simp add: field_simps)
  from round_double_ge [OF N this] True show ?thesis
    by (simp add: total_seconds_def)
next
  case False
  show ?thesis
  proof (cases "us \<le> 0")
    case True
    then have "rat_of_int us / 1000000 \<le> 0" by simp
    then have "round_double (rat_of_int us / 1000000) \<le> 0"
      by (rule round_double_nonpos)
    moreover have "0 < rat_of_int N" using N(1) by simp
    ultimately show ?thesis using False by (simp add: total_seconds_def)
  next
    case pos: False
    then have "1 \<le> us" by simp
    then have "rat_of_int 1 \<le> rat_of_int us"
      by (simp only: of_int_le_iff)
    then have lo: "1 / 1000000 \<le> rat_of_int us / 1000000" by simp
    from False have "us \<le> N * 1000000 - 1" by simp
    then have "rat_of_int us \<le> rat_of_int (N * 1000000 - 1)"
      by (simp only: of_int_le_iff)
    then have hi: "rat_of_int us / 1000000 \<le> rat_of_int N - 1 / 1000000"
      by (simp add: field_simps)
    from round_double_less [OF N lo hi] False show ?thesis
      by (simp add: total_seconds_def)
  qed
qed

text \<open>A whole number of seconds below \<open>2 ^ 53\<close> is a float.\<close>

lemma total_seconds_whole:
  assumes K: "0 \<le> K" "K < 2 ^ 53"
  shows "total_seconds (K * 1000000) = rat_of_int K"
proof (cases "K = 0")
  case True
  then show ?thesis by (simp add: total_seconds_def round_double_def)
next
  case False
  with K(1) have K1: "1 \<le> K" by simp
  define x where "x = rat_of_int K"
  have x1: "1 \<le> x" using K1 by (simp add: x_def)
  then have x0: "x \<noteq> 0" "\<bar>x\<bar> = x" by simp_all
  define e where "e = floor_log2 x"
  have e0: "0 \<le> e" unfolding e_def using x1 by (rule floor_log2_nonneg)
  have lo: "pow2 e \<le> x"
    using floor_log2_bounds [of x] x1 by (simp add: e_def)
  have e_hi: "e \<le> 52"
  proof (rule ccontr)
    assume "\<not> e \<le> 52"
    then have "pow2 53 \<le> pow2 e" by (intro pow2_mono) simp
    moreover have "rat_of_int (K + 1) \<le> 2 ^ 53"
      using K(2) by (intro int_le_pow2) simp
    ultimately show False using lo by (simp add: pow2_def x_def)
  qed
  have q: "pow2 (max (e - 52) (- 1074)) = 1 / 2 ^ nat (52 - e)"
    using e0 e_hi pow2_neg [of "e - 52"] by (simp add: max_def)
  have "x / (1 / 2 ^ nat (52 - e)) = rat_of_int (K * 2 ^ nat (52 - e))"
    by (simp add: x_def)
  then have "round_half_even (x / (1 / 2 ^ nat (52 - e))) = K * 2 ^ nat (52 - e)"
    by (simp only: round_half_even_int)
  then have "round_double x = rat_of_int (K * 2 ^ nat (52 - e)) * (1 / 2 ^ nat (52 - e))"
    by (simp only: round_double_def Let_def x0 e_def [symmetric] q if_False)
  also have "\<dots> = rat_of_int K" by simp
  finally show ?thesis
    by (simp add: total_seconds_def x_def)
qed

section \<open>Lemmas on decimal digits and ISO timestamps\<close>

lemma digit_val_digit_char: "digit_val (digit_char n) = Some (n mod 10)"
proof -
  have "0 \<le> n mod 10" "n mod 10 < 10"
    by simp_all
  then have "(48 + n mod 10) mod 256 = 48 + n mod 10"
    by simp
  then show ?thesis
    by (simp add: digit_val_def digit_char_def Let_def)
qed

lemma length_pad: "length (pad w n) = w"
  by (induction w arbitrary: n) auto

lemma digits_val_snoc:
  "digits_val acc (xs @ [c]) =
     (case digits_val acc xs of
        None \<Rightarrow> None
      | Some a \<Rightarrow> (case digit_val c of None \<Rightarrow> None | Some d \<Rightarrow> Some (a * 10 + d)))"
  by (induction xs arbitrary: acc) (auto split: option.splits)

lemma digits_val_pad: "digits_val 0 (pad w n) = Some (n mod 10 ^ w)"
proof (induction w arbitrary: n)
  case 0
  show ?case by simp
next
  case (Suc w)
  have "n div 10 mod 10 ^ w * 10 + n mod 10 = n mod (10 * 10 ^ w)"
    using zmod_zmult2_eq [of "10 ^ w" n 10] by simp
  then show ?case
    by (simp add: digits_val_snoc Suc digit_val_digit_char)
qed

lemma parse_offset_utc: "parse_offset (format_offset 0) = Inr (Some 0)"
  by code_simp

text \<open>An aware UTC timestamp written by \<open>isoformat\<close> is read back by \<open>fromisoformat\<close>.\<close>

lemma fromisoformat_isoformat:
  assumes v: "valid_datetime t" and u: "utcoffset t = Some 0"
  shows "fromisoformat (isoformat t) = Inr t"
proof -
  define tail where
    "tail = (if microsecond t = 0 then [] else ''.'' @ pad 6 (microsecond t)) @ format_offset 0"
  define s where "s = isoformat t"
  have s: "s = pad 4 (year t) @ CHR ''-'' # pad 2 (month t) @ CHR ''-'' # pad 2 (day t) @
      CHR ''T'' # pad 2 (hour t) @ CHR '':'' # pad 2 (minute t) @ CHR '':'' #
      pad 2 (second t) @ tail"
    by (simp add: s_def isoformat_def tail_def u)
  have len: "length s = 19 + length tail"
    by (simp add: s length_pad)
  have seps: "s ! 4 = CHR ''-''" "s ! 7 = CHR ''-''" "s ! 10 = CHR ''T''"
      "s ! 13 = CHR '':''" "s ! 16 = CHR '':''"
    by (simp_all add: s nth_append length_pad)
  have y: "take 4 s = pad 4 (year t)" by (simp add: s length_pad)
  have mo: "take 2 (drop 5 s) = pad 2 (month t)" by (simp add: s length_pad)
  have d: "take 2 (drop 8 s) = pad 2 (day t)" by (simp add: s length_pad)
  have h: "take 2 (drop 11 s) = pad 2 (hour t)" by (simp add: s length_pad)
  have mi: "take 2 (drop 14 s) = pad 2 (minute t)" by (simp add: s length_pad)
  have se: "take 2 (drop 17 s) = pad 2 (second t)" by (simp add: s length_pad)
  have tl: "drop 19 s = tail" by (simp add: s length_pad)
  have rng: "year t mod 10 ^ 4 = year t" "month t mod 10 ^ 2 = month t"
      "day t mod 10 ^ 2 = day t" "hour t mod 10 ^ 2 = hour t"
      "minute t mod 10 ^ 2 = minute t" "second t mod 10 ^ 2 = second t"
      "microsecond t mod 10 ^ 6 = microsecond t"
    using v by (auto simp: valid_datetime_def days_in_month_def split: if_splits)
  have fr: "parse_fraction tail = Inr (microsecond t, format_offset 0)"
    using rng(7)
    by (auto simp: parse_fraction_def tail_def length_pad digits_val_pad format_offset_def)
  have rec: "\<lparr>year = year t, month = month t, day = day t, hour = hour t, minute = minute t,
       second = second t, microsecond = microsecond t, utcoffset = Some 0\<rparr> = t"
    using u by simp
  show ?thesis
    unfolding s_def[symmetric] fromisoformat_def
    using rng v
    by (simp add: len seps y mo d h mi se tl digits_val_pad fr parse_offset_utc rec)
qed

lemma isoformat_not_empty: "isoformat t \<noteq> []"
  by (simp add: isoformat_def)

lemma valid_monday_at:
  "0 \<le> h \<Longrightarrow> h \<le> 23 \<Longrightarrow> 0 \<le> m \<Longrightarrow> m \<le> 59 \<Longrightarrow> valid_datetime (monday_at h m)"
  by (simp add: valid_datetime_def monday_at_def days_in_month_def)

lemma dt_sub_monday_at:
  "dt_sub (monday_at h m) (monday_at h' m') =
     Inr ((h * 3600 + m * 60 - (h' * 3600 + m' * 60)) * 1000000)"
  by (simp add: dt_sub_def monday_at_def local_micros_def toordinal_def algebra_simps)

section \<open>Lemmas on the activity check\<close>

lemma set_user_field_frame:
  assumes "set_user_field uid k v ud = Inr ud'"
  shows "(\<forall>u. u \<noteq> uid \<longrightarrow> map_of ud' u = map_of ud u) \<and> map fst ud' = map fst ud \<and>
         (\<exists>r. map_of ud uid = Some (PDict r) \<and> map_of ud' uid = Some (PDict (AList.update k v r)))"
proof -
  obtain r where r: "map_of ud uid = Some (PDict r)"
      and ud': "ud' = AList.update uid (PDict (AList.update k v r)) ud"
    using assms by (auto simp: set_user_field_def split: option.splits pyval.splits)
  have "uid \<in> fst ` set ud"
    using r by (metis domI dom_map_of_conv_image_fst)
  then have "map fst ud' = map fst ud"
    by (simp add: ud' update_keys)
  then show ?thesis
    using r by (simp add: ud' update_conv')
qed

text \<open>What the body of the \<open>try\<close> can do: raise (before or after a message went out, and
  before any assignment), leave the state alone, or assign \<open>last_activity_check\<close> and
  write the file.\<close>

lemma activity_check_body_cases:
  "(\<exists>x s1. activity_check_body e uid rec s = Inl (x, s1) \<and>
       (s1 = s \<or>
        s1 = s\<lparr>outbox := outbox s @ [(uid, random_choice (pick e) activity_check_messages)]\<rparr>)) \<or>
   activity_check_body e uid rec s = Inr s \<or>
   (\<exists>s1 ud. activity_check_body e uid rec s = Inr (s1\<lparr>user_data := ud, disk := Some (PDict ud)\<rparr>) \<and>
       (s1 = s \<or>
        s1 = s\<lparr>outbox := outbox s @ [(uid, random_choice (pick e) activity_check_messages)]\<rparr>) \<and>
       set_user_field uid ''last_activity_check'' (PStr (isoformat (now_utc e))) (user_data s) = Inr ud)"
  unfolding activity_check_body_def send_dm_def save_data_def
  by (auto split: sum.splits bool.splits delivery.splits)

text \<open>The body for a user whose check is due and whose probability is a number.\<close>

lemma activity_check_body_due:
  assumes rec: "map_of (user_data s) uid = Some (PDict r)"
    and cfg: "py_get (PDict r) ''config'' (PDict default_config) = Inr config"
    and due: "activity_due config (PDict r) (now_utc e) = Inr True"
    and pv: "py_getitem config ''activity_check_probability'' = Inr pv"
    and p: "py_num pv = Some p"
  shows "activity_check_body e uid (PDict r) s =
    (if sample e < p then
       (case delivery e of
          Delivered \<Rightarrow>
            Inr (s\<lparr>user_data :=
                     AList.update uid
                       (PDict (AList.update ''last_activity_check''
                                 (PStr (isoformat (now_utc e))) r)) (user_data s),
                   disk :=
                     Some (PDict (AList.update uid
                       (PDict (AList.update ''last_activity_check''
                                 (PStr (isoformat (now_utc e))) r)) (user_data s))),
                   outbox := outbox s @ [(uid, random_choice (pick e) activity_check_messages)]\<rparr>)
        | Raised x \<Rightarrow> Inl (x, s))
     else
       Inr (s\<lparr>user_data :=
                AList.update uid
                  (PDict (AList.update ''last_activity_check''
                            (PStr (isoformat (now_utc e))) r)) (user_data s),
              disk :=
                Some (PDict (AList.update uid
                  (PDict (AList.update ''last_activity_check''
                            (PStr (isoformat (now_utc e))) r)) (user_data s)))\<rparr>))"
  using rec
  by (simp add: activity_check_body_def cfg due pv py_float_lt_def p send_dm_def
      set_user_field_def save_data_def split: delivery.splits)

lemma random_choice_in: "xs \<noteq> [] \<Longrightarrow> random_choice i xs \<in> set xs"
  by (simp add: random_choice_def)

section \<open>The activity check: results\<close>

text \<open>
  C10. An evaluation of the activity check for one user changes at most the
  \<open>last_activity_check\<close> field of that user's record: every other user's record, the keys
  of \<open>self.user_data\<close> and their order, and every other field of the user's own record
  (\<open>joined_date\<close>, \<open>config\<close>, \<open>weekly_plans\<close>, \<open>daily_logs\<close>, \<open>last_interaction\<close>) are as
  before. This holds whether or not the evaluation raises.
\<close>

theorem activity_check_user_frame:
  "(\<forall>u. u \<noteq> uid \<longrightarrow>
       map_of (user_data (activity_check_user e uid rec s)) u = map_of (user_data s) u) \<and>
   map fst (user_data (activity_check_user e uid rec s)) = map fst (user_data s) \<and>
   (map_of (user_data (activity_check_user e uid rec s)) uid = map_of (user_data s) uid \<or>
    (\<exists>r r'. map_of (user_data s) uid = Some (PDict r) \<and>
        map_of (user_data (activity_check_user e uid rec s)) uid = Some (PDict r') \<and>
        (\<forall>k. k \<noteq> ''last_activity_check'' \<longrightarrow> map_of r' k = map_of r k)))"
proof -
  consider
    (raised) x s1 where "activity_check_body e uid rec s = Inl (x, s1)"
      "user_data s1 = user_data s"
  | (idle) "activity_check_body e uid rec s = Inr s"
  | (checked) s1 ud where
      "activity_check_body e uid rec s = Inr (s1\<lparr>user_data := ud, disk := Some (PDict ud)\<rparr>)"
      "set_user_field uid ''last_activity_check'' (PStr (isoformat (now_utc e))) (user_data s) = Inr ud"
    using activity_check_body_cases [of e uid rec s] by auto
  then show ?thesis
  proof cases
    case raised
    then show ?thesis
      by (simp add: activity_check_user_def handle_def)
  next
    case idle
    then show ?thesis
      by (simp add: activity_check_user_def handle_def)
  next
    case checked
    have s': "user_data (activity_check_user e uid rec s) = ud"
      using checked(1) by (simp add: activity_check_user_def handle_def)
    from set_user_field_frame [OF checked(2)]
    obtain r where others: "\<forall>u. u \<noteq> uid \<longrightarrow> map_of ud u = map_of (user_data s) u"
        and keys: "map fst ud = map fst (user_data s)"
        and r: "map_of (user_data s) uid = Some (PDict r)"
        and r': "map_of ud uid =
                   Some (PDict (AList.update ''last_activity_check''
                                  (PStr (isoformat (now_utc e))) r))"
      by blast
    have "\<forall>k. k \<noteq> ''last_activity_check'' \<longrightarrow>
            map_of (AList.update ''last_activity_check'' (PStr (isoformat (now_utc e))) r) k
              = map_of r k"
      by (simp add: update_conv')
    with others keys r r' show ?thesis
      unfolding s' by blast
  qed
qed

theorem activity_check_user_frame_witness:
  "map_of (user_data (activity_check_user (clock_env (monday_at 9 0) (1 / 2) Delivered) ''42''
              (PDict (user_record default_config PNone))
              (tracking [(''42'', PDict (user_record default_config PNone)),
                         (''7'', PDict (user_record default_config PNone))]))) ''7''
     = Some (PDict (user_record default_config PNone)) \<and>
   user_data (activity_check_user (clock_env (monday_at 9 0) (1 / 2) Delivered) ''42''
              (PDict (user_record default_config PNone))
              (tracking [(''42'', PDict (user_record default_config PNone)),
                         (''7'', PDict (user_record default_config PNone))]))
     = [(''42'', PDict (user_record default_config (PStr ''2024-01-01T09:00:00+00:00''))),
        (''7'', PDict (user_record default_config PNone))]"
proof -
  have other: "''7'' \<noteq> ''42''"
    by simp
  have "map_of (user_data (activity_check_user (clock_env (monday_at 9 0) (1 / 2) Delivered) ''42''
              (PDict (user_record default_config PNone))
              (tracking [(''42'', PDict (user_record default_config PNone)),
                         (''7'', PDict (user_record default_config PNone))]))) ''7''
     = map_of (user_data (tracking [(''42'', PDict (user_record default_config PNone)),
                         (''7'', PDict (user_record default_config PNone))])) ''7''"
    using activity_check_user_frame
      [of "''42''" "clock_env (monday_at 9 0) (1 / 2) Delivered"
          "PDict (user_record default_config PNone)"
          "tracking [(''42'', PDict (user_record default_config PNone)),
                     (''7'', PDict (user_record default_config PNone))]"] other
    by blast
  moreover have "user_data (activity_check_user (clock_env (monday_at 9 0) (1 / 2) Delivered) ''42''
              (PDict (user_record default_config PNone))
              (tracking [(''42'', PDict (user_record default_config PNone)),
                         (''7'', PDict (user_record default_config PNone))]))
     = [(''42'', PDict (user_record default_config (PStr ''2024-01-01T09:00:00+00:00''))),
        (''7'', PDict (user_record default_config PNone))]"
    by code_simp
  ultimately show ?thesis
    by (simp add: tracking_def)
qed

text \<open>
  C2, as amended. For a user whose check is due and whose probability is a number:
  the message goes out exactly when the sample is below the probability, and, unless that
  dispatch raises, \<open>last_activity_check\<close> becomes the evaluation time and the dictionary is
  written to the file, whether or not a message went out. Nothing else changes.
\<close>

theorem activity_check_user_due:
  assumes rec: "map_of (user_data s) uid = Some (PDict r)"
    and cfg: "py_get (PDict r) ''config'' (PDict default_config) = Inr config"
    and due: "activity_due config (PDict r) (now_utc e) = Inr True"
    and pv: "py_getitem config ''activity_check_probability'' = Inr pv"
    and p: "py_num pv = Some p"
    and ok: "sample e < p \<longrightarrow> delivery e = Delivered"
  shows "user_data (activity_check_user e uid (PDict r) s) =
           AList.update uid
             (PDict (AList.update ''last_activity_check'' (PStr (isoformat (now_utc e))) r))
             (user_data s) \<and>
         disk (activity_check_user e uid (PDict r) s) =
           Some (PDict (user_data (activity_check_user e uid (PDict r) s))) \<and>
         outbox (activity_check_user e uid (PDict r) s) =
           (if sample e < p
            then outbox s @ [(uid, random_choice (pick e) activity_check_messages)]
            else outbox s) \<and>
         random_choice (pick e) activity_check_messages \<in> set activity_check_messages \<and>
         console (activity_check_user e uid (PDict r) s) = console s \<and>
         memory (activity_check_user e uid (PDict r) s) = memory s"
proof -
  have msg: "random_choice (pick e) activity_check_messages \<in> set activity_check_messages"
    by (rule random_choice_in) (simp add: activity_check_messages_def)
  show ?thesis
  proof (cases "sample e < p")
    case True
    with ok have "delivery e = Delivered"
      by simp
    with True msg show ?thesis
      by (simp add: activity_check_user_def handle_def
          activity_check_body_due [OF rec cfg due pv p])
  next
    case False
    with msg show ?thesis
      by (simp add: activity_check_user_def handle_def
          activity_check_body_due [OF rec cfg due pv p])
  qed
qed

text \<open>The scenario of the claim: probability \<open>0.0\<close>, no check so far, one evaluation at
  09:00: no message, and \<open>last_activity_check\<close> is the invocation time, in the dictionary
  and in the file.\<close>

theorem activity_check_user_due_witness:
  "outbox (activity_check_user (clock_env (monday_at 9 0) 0 Delivered) ''42''
       (PDict (user_record
          (AList.update ''activity_check_probability'' (PFloat 0) default_config) PNone))
       (tracking [(''42'', PDict (user_record
          (AList.update ''activity_check_probability'' (PFloat 0) default_config) PNone))]))
     = [] \<and>
   disk (activity_check_user (clock_env (monday_at 9 0) 0 Delivered) ''42''
       (PDict (user_record
          (AList.update ''activity_check_probability'' (PFloat 0) default_config) PNone))
       (tracking [(''42'', PDict (user_record
          (AList.update ''activity_check_probability'' (PFloat 0) default_config) PNone))]))
     = Some (PDict [(''42'', PDict (user_record
          (AList.update ''activity_check_probability'' (PFloat 0) default_config)
          (PStr ''2024-01-01T09:00:00+00:00'')))])"
proof -
  define config where
    "config = AList.update ''activity_check_probability'' (PFloat 0) default_config"
  define r where "r = user_record config PNone"
  define s where "s = tracking [(''42'', PDict r)]"
  define e where "e = clock_env (monday_at 9 0) 0 Delivered"
  have rec: "map_of (user_data s) ''42'' = Some (PDict r)"
    by (simp add: s_def tracking_def)
  have cfg: "py_get (PDict r) ''config'' (PDict default_config) = Inr (PDict config)"
    by (simp add: r_def user_record_def py_get_def)
  have due: "activity_due (PDict config) (PDict r) (now_utc e) = Inr True"
    unfolding config_def r_def e_def by code_simp
  have pv: "py_getitem (PDict config) ''activity_check_probability'' = Inr (PFloat 0)"
    unfolding config_def by code_simp
  have p: "py_num (PFloat 0) = Some 0"
    by (simp add: round_double_def)
  have ok: "sample e < 0 \<longrightarrow> delivery e = Delivered"
    by (simp add: e_def clock_env_def)
  have iso: "isoformat (now_utc e) = ''2024-01-01T09:00:00+00:00''"
    unfolding e_def by code_simp
  have upd: "AList.update ''last_activity_check'' (PStr ''2024-01-01T09:00:00+00:00'') r =
      user_record config (PStr ''2024-01-01T09:00:00+00:00'')"
    by (simp add: r_def user_record_def)
  have "sample e = 0" "outbox s = []" "user_data s = [(''42'', PDict r)]"
    by (simp_all add: e_def clock_env_def s_def tracking_def)
  with activity_check_user_due [OF rec cfg due pv p ok] iso upd show ?thesis
    unfolding config_def [symmetric] r_def [symmetric] s_def [symmetric] e_def [symmetric]
    by simp
qed

text \<open>The claim as stated fails when the dispatch raises: for a due user with probability
  \<open>0.3\<close> and sample \<open>0.1\<close> whose message the platform refuses, \<open>last_activity_check\<close> stays
  unset and the file is not written again; only a line is printed.\<close>

theorem activity_check_user_due_counterexample:
  "activity_due (PDict default_config) (PDict (user_record default_config PNone)) (monday_at 9 0)
     = Inr True \<and>
   activity_check_user (clock_env (monday_at 9 0) (1 / 10) (Raised HTTPException)) ''42''
       (PDict (user_record default_config PNone))
       (tracking [(''42'', PDict (user_record default_config PNone))])
     = (tracking [(''42'', PDict (user_record default_config PNone))])
         \<lparr>console := [ErrorInTask ''activity check'' ''42'' HTTPException]\<rparr>"
  by code_simp

text \<open>
  C5, as amended. When the dispatch for a due user raises, the exception is caught and one
  line is printed; the user's record keeps the \<open>last_activity_check\<close> it had and the file
  is not written: the state is as before but for the printed line, and the tick goes on
  with the remaining users.
\<close>

theorem activity_check_user_dispatch_raises:
  assumes rec: "map_of (user_data s) uid = Some (PDict r)"
    and cfg: "py_get (PDict r) ''config'' (PDict default_config) = Inr config"
    and due: "activity_due config (PDict r) (now_utc (envs uid)) = Inr True"
    and pv: "py_getitem config ''activity_check_probability'' = Inr pv"
    and p: "py_num pv = Some p"
    and below: "sample (envs uid) < p"
    and raised: "delivery (envs uid) = Raised x"
  shows "activity_check_user (envs uid) uid (PDict r) s =
           s\<lparr>console := console s @
                [if x = NotFound then CouldNotFindUser uid
                 else ErrorInTask ''activity check'' uid x]\<rparr> \<and>
         for_each_user activity_check_user envs ((uid, PDict r) # rest) s =
           for_each_user activity_check_user envs rest
             (s\<lparr>console := console s @
                  [if x = NotFound then CouldNotFindUser uid
                   else ErrorInTask ''activity check'' uid x]\<rparr>)"
proof -
  have "activity_check_body (envs uid) uid (PDict r) s = Inl (x, s)"
    using below raised by (simp add: activity_check_body_due [OF rec cfg due pv p])
  then have "activity_check_user (envs uid) uid (PDict r) s =
           s\<lparr>console := console s @
                [if x = NotFound then CouldNotFindUser uid
                 else ErrorInTask ''activity check'' uid x]\<rparr>"
    by (simp add: activity_check_user_def handle_def)
  then show ?thesis
    by simp
qed

theorem activity_check_user_dispatch_raises_witness:
  "for_each_user activity_check_user
       (every_user (clock_env (monday_at 9 0) (1 / 10) (Raised NotFound)))
       [(''42'', PDict (user_record default_config PNone)),
        (''7'', PDict (user_record default_config (PStr ''2024-01-01T08:45:00+00:00'')))]
       (tracking [(''42'', PDict (user_record default_config PNone)),
                  (''7'', PDict (user_record default_config (PStr ''2024-01-01T08:45:00+00:00'')))])
     = (tracking [(''42'', PDict (user_record default_config PNone)),
                  (''7'', PDict (user_record default_config (PStr ''2024-01-01T08:45:00+00:00'')))])
         \<lparr>console := [CouldNotFindUser ''42'']\<rparr>"
proof -
  define r where "r = user_record default_config PNone"
  define r7 where "r7 = user_record default_config (PStr ''2024-01-01T08:45:00+00:00'')"
  define s where "s = tracking [(''42'', PDict r), (''7'', PDict r7)]"
  define envs where "envs = every_user (clock_env (monday_at 9 0) (1 / 10) (Raised NotFound))"
  have rec: "map_of (user_data s) ''42'' = Some (PDict r)"
    by (simp add: s_def tracking_def)
  have cfg: "py_get (PDict r) ''config'' (PDict default_config) = Inr (PDict default_config)"
    by (simp add: r_def user_record_def py_get_def)
  have due: "activity_due (PDict default_config) (PDict r) (now_utc (envs ''42'')) = Inr True"
    unfolding r_def envs_def by code_simp
  have pv: "py_getitem (PDict default_config) ''activity_check_probability''
              = Inr (PFloat (3 / 10))"
    by code_simp
  have p: "py_num (PFloat (3 / 10)) = Some (round_double (3 / 10))"
    by simp
  have "1 / 10 < round_double (3 / 10)"
    by code_simp
  then have below: "sample (envs ''42'') < round_double (3 / 10)"
    by (simp add: envs_def every_user_def clock_env_def)
  have raised: "delivery (envs ''42'') = Raised NotFound"
    by (simp add: envs_def every_user_def clock_env_def)
  have rest: "for_each_user activity_check_user envs [(''7'', PDict r7)]
                (s\<lparr>console := console s @ [CouldNotFindUser ''42'']\<rparr>)
              = s\<lparr>console := [CouldNotFindUser ''42'']\<rparr>"
    unfolding r_def r7_def s_def envs_def by code_simp
  from activity_check_user_dispatch_raises
         [where envs = envs and uid = "''42''" and rest = "[(''7'', PDict r7)]",
          OF rec cfg due pv p below raised] rest
  show ?thesis
    unfolding r_def [symmetric] r7_def [symmetric] s_def [symmetric] envs_def [symmetric]
    by simp
qed

text \<open>The claim as stated fails: a user last checked at 08:00 is due at 09:00, the sample
  \<open>0.1\<close> is below the probability \<open>0.3\<close>, the platform does not find the user, and after the
  evaluation the record still holds 08:00 and the file is the one written before.\<close>

theorem activity_check_user_dispatch_raises_counterexample:
  "activity_due (PDict default_config)
       (PDict (user_record default_config (PStr ''2024-01-01T08:00:00+00:00''))) (monday_at 9 0)
     = Inr True \<and>
   activity_check_user (clock_env (monday_at 9 0) (1 / 10) (Raised NotFound)) ''42''
       (PDict (user_record default_config (PStr ''2024-01-01T08:00:00+00:00'')))
       (tracking [(''42'', PDict (user_record default_config (PStr ''2024-01-01T08:00:00+00:00'')))])
     = (tracking [(''42'', PDict (user_record default_config (PStr ''2024-01-01T08:00:00+00:00'')))])
         \<lparr>console := [CouldNotFindUser ''42'']\<rparr> \<and>
   isoformat (monday_at 9 0) = ''2024-01-01T09:00:00+00:00''"
  by code_simp

text \<open>
  C3, as amended. With an integer interval of \<open>m > 0\<close> minutes configured: the check is due
  when \<open>last_activity_check\<close> is unset (absent or \<open>None\<close>); for \<open>m\<close> up to 286331153 minutes
  (\<open>2 ^ 34\<close> seconds), when it holds the timestamp of a check at \<open>t\<close>, the check is due at
  \<open>now\<close> exactly when \<open>now - t\<close> is at least \<open>m\<close> minutes; and for \<open>m\<close> below \<open>2 ^ 53\<close>
  seconds, evaluations at the time of the check, \<open>m - 1\<close> minutes later and \<open>m\<close> minutes
  later are not due, not due and due. The probability plays no part.
\<close>

theorem activity_due_exactly:
  assumes iv: "py_getitem config ''activity_check_interval'' = Inr (PInt m)"
    and m: "0 < m"
  shows
    "(map_of r ''last_activity_check'' = None \<or> map_of r ''last_activity_check'' = Some PNone
        \<longrightarrow> activity_due config (PDict r) now = Inr True) \<and>
     (m \<le> 286331153 \<longrightarrow>
        (\<forall>t us. map_of r ''last_activity_check'' = Some (PStr (isoformat t)) \<and>
            valid_datetime t \<and> utcoffset t = Some 0 \<and> dt_sub now t = Inr us
          \<longrightarrow> activity_due config (PDict r) now = Inr (m * 60 * 1000000 \<le> us))) \<and>
     (m * 60 < 9007199254740992 \<longrightarrow>
        (\<forall>t t1 t2 t3. map_of r ''last_activity_check'' = Some (PStr (isoformat t)) \<and>
            valid_datetime t \<and> utcoffset t = Some 0 \<and>
            dt_sub t1 t = Inr 0 \<and>
            dt_sub t2 t = Inr ((m - 1) * 60 * 1000000) \<and>
            dt_sub t3 t = Inr (m * 60 * 1000000)
          \<longrightarrow> activity_due config (PDict r) t1 = Inr False \<and>
              activity_due config (PDict r) t2 = Inr False \<and>
              activity_due config (PDict r) t3 = Inr True))"
proof -
  have unset: "activity_due config (PDict r) now = Inr True"
    if "map_of r ''last_activity_check'' = None \<or> map_of r ''last_activity_check'' = Some PNone"
    using that
    by (auto simp: activity_due_def py_get_def read_last_check_def check_due_def)
  have float: "activity_due config (PDict r) t' = Inr (rat_of_int (m * 60) \<le> total_seconds us)"
    if last: "map_of r ''last_activity_check'' = Some (PStr (isoformat t))"
      and v: "valid_datetime t" and u: "utcoffset t = Some 0"
      and sub: "dt_sub t' t = Inr us"
    for t t' us
    by (simp add: activity_due_def py_get_def last read_last_check_def isoformat_not_empty
        fromisoformat_isoformat [OF v u] check_due_def sub iv times_60_def)
  have exact: "activity_due config (PDict r) now = Inr (m * 60 * 1000000 \<le> us)"
    if small: "m \<le> 286331153"
      and last: "map_of r ''last_activity_check'' = Some (PStr (isoformat t))"
      and v: "valid_datetime t" and u: "utcoffset t = Some 0"
      and sub: "dt_sub now t = Inr us"
    for t us
  proof -
    have "1 \<le> m * 60" "m * 60 \<le> 2 ^ 34"
      using m small by simp_all
    from total_seconds_ge_iff [OF this, of us] float [OF last v u sub] show ?thesis
      by simp
  qed
  have steps: "activity_due config (PDict r) t1 = Inr False \<and>
      activity_due config (PDict r) t2 = Inr False \<and>
      activity_due config (PDict r) t3 = Inr True"
    if bound: "m * 60 < 9007199254740992"
      and last: "map_of r ''last_activity_check'' = Some (PStr (isoformat t))"
      and v: "valid_datetime t" and u: "utcoffset t = Some 0"
      and s1: "dt_sub t1 t = Inr 0"
      and s2: "dt_sub t2 t = Inr ((m - 1) * 60 * 1000000)"
      and s3: "dt_sub t3 t = Inr (m * 60 * 1000000)"
    for t t1 t2 t3
  proof -
    have z: "total_seconds 0 = 0"
      using total_seconds_whole [of 0] by simp
    have "total_seconds ((m - 1) * 60 * 1000000) = rat_of_int ((m - 1) * 60)"
      using total_seconds_whole [of "(m - 1) * 60"] m bound by simp
    moreover have "total_seconds (m * 60 * 1000000) = rat_of_int (m * 60)"
      using total_seconds_whole [of "m * 60"] m bound by simp
    moreover have "\<not> rat_of_int (m * 60) \<le> 0"
      using m by simp
    moreover have "\<not> rat_of_int (m * 60) \<le> rat_of_int ((m - 1) * 60)"
      by (simp only: of_int_le_iff) simp
    ultimately show ?thesis
      using float [OF last v u s1] float [OF last v u s2] float [OF last v u s3] z
      by simp
  qed
  from unset exact steps show ?thesis
    by blast
qed

theorem activity_due_exactly_witness:
  "activity_due (PDict default_config) (PDict (user_record default_config PNone)) (monday_at 9 0)
     = Inr True \<and>
   activity_due (PDict default_config)
       (PDict (user_record default_config (PStr ''2024-01-01T09:00:00+00:00''))) (monday_at 9 0)
     = Inr False \<and>
   activity_due (PDict default_config)
       (PDict (user_record default_config (PStr ''2024-01-01T09:00:00+00:00''))) (monday_at 9 29)
     = Inr False \<and>
   activity_due (PDict default_config)
       (PDict (user_record default_config (PStr ''2024-01-01T09:00:00+00:00''))) (monday_at 9 30)
     = Inr True \<and>
   activity_due (PDict default_config)
       (PDict (user_record default_config (PStr ''2024-01-01T09:00:00+00:00'')))
       \<lparr>year = 2024, month = 1, day = 1, hour = 9, minute = 29, second = 59,
        microsecond = 999999, utcoffset = Some 0\<rparr>
     = Inr False \<and>
   activity_due (PDict default_config)
       (PDict (user_record default_config (PStr ''2024-01-01T09:00:00+00:00'')))
       \<lparr>year = 2024, month = 3, day = 1, hour = 8, minute = 0, second = 0,
        microsecond = 0, utcoffset = Some 0\<rparr>
     = Inr True"
proof -
  have iv: "py_getitem (PDict default_config) ''activity_check_interval'' = Inr (PInt 30)"
    by code_simp
  have iso: "isoformat (monday_at 9 0) = ''2024-01-01T09:00:00+00:00''"
    by code_simp
  have unset: "map_of (user_record default_config PNone) ''last_activity_check'' = None \<or>
      map_of (user_record default_config PNone) ''last_activity_check'' = Some PNone"
    by (simp add: user_record_def)
  have last: "map_of (user_record default_config (PStr ''2024-01-01T09:00:00+00:00''))
      ''last_activity_check'' = Some (PStr (isoformat (monday_at 9 0)))"
    by (simp add: user_record_def iso)
  have v: "valid_datetime (monday_at 9 0)"
    by (simp add: valid_monday_at)
  have u: "utcoffset (monday_at 9 0) = Some 0"
    by (simp add: monday_at_def)
  have s1: "dt_sub (monday_at 9 0) (monday_at 9 0) = Inr 0"
    by (simp add: dt_sub_monday_at)
  have s2: "dt_sub (monday_at 9 29) (monday_at 9 0) = Inr ((30 - 1) * 60 * 1000000)"
    by (simp add: dt_sub_monday_at)
  have s3: "dt_sub (monday_at 9 30) (monday_at 9 0) = Inr (30 * 60 * 1000000)"
    by (simp add: dt_sub_monday_at)
  have pos: "(0::int) < 30"
    by simp
  have bound: "(30::int) * 60 < 9007199254740992"
    by simp
  from activity_due_exactly [OF iv pos, of "user_record default_config PNone" "monday_at 9 0"]
    unset
  have a: "activity_due (PDict default_config) (PDict (user_record default_config PNone))
      (monday_at 9 0) = Inr True"
    by blast
  from activity_due_exactly
         [OF iv pos, of "user_record default_config (PStr ''2024-01-01T09:00:00+00:00'')"]
       bound last v u s1 s2 s3
  have "activity_due (PDict default_config)
       (PDict (user_record default_config (PStr ''2024-01-01T09:00:00+00:00''))) (monday_at 9 0)
     = Inr False \<and>
   activity_due (PDict default_config)
       (PDict (user_record default_config (PStr ''2024-01-01T09:00:00+00:00''))) (monday_at 9 29)
     = Inr False \<and>
   activity_due (PDict default_config)
       (PDict (user_record default_config (PStr ''2024-01-01T09:00:00+00:00''))) (monday_at 9 30)
     = Inr True"
    by blast
  note b = this
  have small: "(30::int) \<le> 286331153"
    by simp
  have s4: "dt_sub \<lparr>year = 2024, month = 1, day = 1, hour = 9, minute = 29, second = 59,
        microsecond = 999999, utcoffset = Some 0\<rparr> (monday_at 9 0) = Inr 1799999999"
    by code_simp
  have s5: "dt_sub \<lparr>year = 2024, month = 3, day = 1, hour = 8, minute = 0, second = 0,
        microsecond = 0, utcoffset = Some 0\<rparr> (monday_at 9 0) = Inr 5180400000000"
    by code_simp
  from activity_due_exactly
         [OF iv pos, of "user_record default_config (PStr ''2024-01-01T09:00:00+00:00'')"
            "\<lparr>year = 2024, month = 1, day = 1, hour = 9, minute = 29, second = 59,
              microsecond = 999999, utcoffset = Some 0\<rparr>"]
       small last v u s4
  have "activity_due (PDict default_config)
       (PDict (user_record default_config (PStr ''2024-01-01T09:00:00+00:00'')))
       \<lparr>year = 2024, month = 1, day = 1, hour = 9, minute = 29, second = 59,
        microsecond = 999999, utcoffset = Some 0\<rparr>
     = Inr (30 * 60 * 1000000 \<le> (1799999999::int))"
    by blast
  then have c: "activity_due (PDict default_config)
       (PDict (user_record default_config (PStr ''2024-01-01T09:00:00+00:00'')))
       \<lparr>year = 2024, month = 1, day = 1, hour = 9, minute = 29, second = 59,
        microsecond = 999999, utcoffset = Some 0\<rparr>
     = Inr False"
    by simp
  from activity_due_exactly
         [OF iv pos, of "user_record default_config (PStr ''2024-01-01T09:00:00+00:00'')"
            "\<lparr>year = 2024, month = 3, day = 1, hour = 8, minute = 0, second = 0,
              microsecond = 0, utcoffset = Some 0\<rparr>"]
       small last v u s5
  have "activity_due (PDict default_config)
       (PDict (user_record default_config (PStr ''2024-01-01T09:00:00+00:00'')))
       \<lparr>year = 2024, month = 3, day = 1, hour = 8, minute = 0, second = 0,
        microsecond = 0, utcoffset = Some 0\<rparr>
     = Inr (30 * 60 * 1000000 \<le> (5180400000000::int))"
    by blast
  then have d: "activity_due (PDict default_config)
       (PDict (user_record default_config (PStr ''2024-01-01T09:00:00+00:00'')))
       \<lparr>year = 2024, month = 3, day = 1, hour = 8, minute = 0, second = 0,
        microsecond = 0, utcoffset = Some 0\<rparr>
     = Inr True"
    by simp
  from a b c d show ?thesis
    by simp
qed

text \<open>The claim as stated fails for a very long interval, through the rounding of
  \<open>total_seconds()\<close>: with 300000000 minutes configured and the last check on 9 August 1453
  at 01:00:00.000001 UTC, at 09:00 on 1 January 2024 one microsecond is missing from the
  interval, yet the elapsed time rounds to 18000000000.0 seconds and the check is due.\<close>

theorem activity_due_exactly_counterexample:
  "dt_sub (monday_at 9 0)
       \<lparr>year = 1453, month = 8, day = 9, hour = 1, minute = 0, second = 0, microsecond = 1,
        utcoffset = Some 0\<rparr>
     = Inr 17999999999999999 \<and>
   (17999999999999999::int) < 300000000 * 60 * 1000000 \<and>
   isoformat \<lparr>year = 1453, month = 8, day = 9, hour = 1, minute = 0, second = 0,
              microsecond = 1, utcoffset = Some 0\<rparr>
     = ''1453-08-09T01:00:00.000001+00:00'' \<and>
   activity_due
       (PDict (AList.update ''activity_check_interval'' (PInt 300000000) default_config))
       (PDict (user_record
          (AList.update ''activity_check_interval'' (PInt 300000000) default_config)
          (PStr ''1453-08-09T01:00:00.000001+00:00'')))
       (monday_at 9 0)
     = Inr True"
  by code_simp

section \<open>The morning, evening and weekly checks: results\<close>

text \<open>Whatever the record and the clock, the body of the daily checks and of the weekly
  check raises before it reaches the test of the hour: at the latest,
  \<open>datetime.timezone(config["timezone"])\<close> raises TypeError. So these tasks send nothing.\<close>

lemma daily_check_body_raises: "\<exists>x. daily_check_body key msgs e uid rec s = Inl (x, s)"
proof (cases "py_get rec ''config'' (PDict default_config)")
  case (Inl x)
  then show ?thesis
    by (simp add: daily_check_body_def)
next
  case (Inr config)
  show ?thesis
  proof (cases "py_getitem config ''timezone''")
    case (Inl x)
    with Inr show ?thesis
      by (simp add: daily_check_body_def)
  next
    case tz: (Inr tzname)
    have "timezone tzname = Inl TypeError"
      by (cases tzname) simp_all
    with Inr tz show ?thesis
      by (simp add: daily_check_body_def)
  qed
qed

lemma weekly_review_body_raises: "\<exists>x. weekly_review_body e uid rec s = Inl (x, s)"
proof (cases "py_get rec ''config'' (PDict default_config)")
  case (Inl x)
  then show ?thesis
    by (simp add: weekly_review_body_def)
next
  case (Inr config)
  show ?thesis
  proof (cases "py_getitem config ''timezone''")
    case (Inl x)
    with Inr show ?thesis
      by (simp add: weekly_review_body_def)
  next
    case tz: (Inr tzname)
    have "timezone tzname = Inl TypeError"
      by (cases tzname) simp_all
    with Inr tz show ?thesis
      by (simp add: weekly_review_body_def)
  qed
qed

lemma handle_raised_frame:
  "outbox (handle task uid (Inl (x, s))) = outbox s \<and>
   user_data (handle task uid (Inl (x, s))) = user_data s \<and>
   disk (handle task uid (Inl (x, s))) = disk s"
  by (simp add: handle_def)

lemma morning_check_user_silent:
  "outbox (morning_check_user e uid rec s) = outbox s \<and>
   user_data (morning_check_user e uid rec s) = user_data s"
  using daily_check_body_raises [of "''morning_check_hour''" morning_messages e uid rec s]
  by (auto simp: morning_check_user_def handle_raised_frame)

lemma evening_review_user_silent:
  "outbox (evening_review_user e uid rec s) = outbox s \<and>
   user_data (evening_review_user e uid rec s) = user_data s"
  using daily_check_body_raises [of "''evening_review_hour''" evening_messages e uid rec s]
  by (auto simp: evening_review_user_def handle_raised_frame)

lemma weekly_review_check_user_silent:
  "outbox (weekly_review_check_user e uid rec s) = outbox s \<and>
   user_data (weekly_review_check_user e uid rec s) = user_data s"
  using weekly_review_body_raises [of e uid rec s]
  by (auto simp: weekly_review_check_user_def handle_raised_frame)

text \<open>A loop whose iterations keep a part of the state keeps it.\<close>

lemma for_each_user_keeps:
  assumes "\<And>e uid rec s. g (f e uid rec s) = g s"
  shows "g (for_each_user f envs ud s) = g s"
  using assms by (induction ud arbitrary: s) auto

lemma morning_check_silent:
  "outbox (morning_check envs s) = outbox s \<and> user_data (morning_check envs s) = user_data s"
  unfolding morning_check_def
  using for_each_user_keeps [of outbox morning_check_user]
    for_each_user_keeps [of user_data morning_check_user]
  by (simp add: morning_check_user_silent)

lemma evening_review_silent:
  "outbox (evening_review envs s) = outbox s \<and> user_data (evening_review envs s) = user_data s"
  unfolding evening_review_def
  using for_each_user_keeps [of outbox evening_review_user]
    for_each_user_keeps [of user_data evening_review_user]
  by (simp add: evening_review_user_silent)

lemma weekly_review_check_silent:
  "outbox (weekly_review_check envs s) = outbox s \<and>
   user_data (weekly_review_check envs s) = user_data s"
  unfolding weekly_review_check_def
  using for_each_user_keeps [of outbox weekly_review_check_user]
    for_each_user_keeps [of user_data weekly_review_check_user]
  by (simp add: weekly_review_check_user_silent)

text \<open>The loop treats the users one after the other: what it does for a user does not
  depend on an exception raised for another.\<close>

lemma for_each_user_append:
  "for_each_user f envs (ud1 @ ud2) s = for_each_user f envs ud2 (for_each_user f envs ud1 s)"
  by (induction ud1 arbitrary: s) auto

text \<open>
  C1 (the code departs from the claim). A user with timezone \<open>UTC\<close> and morning hour 9,
  evaluated at 09:00:00Z with a reachable user: the claim has the morning check fire; the
  code prints an error for the user (the TypeError of \<open>datetime.timezone("UTC")\<close>) and
  sends nothing.
\<close>

theorem morning_check_at_nine:
  "morning_check (every_user (clock_env (monday_at 9 0) 0 Delivered))
       (tracking [(''42'', PDict (user_record default_config PNone))])
     = (tracking [(''42'', PDict (user_record default_config PNone))])
         \<lparr>console := [ErrorInTask ''morning check'' ''42'' TypeError]\<rparr>"
  by code_simp

text \<open>
  C4 (the code departs from the claim). A user with timezone \<open>UTC\<close>, weekly review day
  \<open>MON\<close> and weekly review hour 9, evaluated on Monday 1 January 2024 at 09:00:00Z: the
  claim has the weekly review fire; the code prints an error and sends nothing.
\<close>

theorem weekly_review_check_on_monday_at_nine:
  "weekday (monday_at 9 0) = 0 \<and>
   weekly_review_check (every_user (clock_env (monday_at 9 0) 0 Delivered))
       (tracking [(''42'', PDict (user_record
          (AList.update ''weekly_review_hour'' (PInt 9)
             (AList.update ''weekly_review_day'' (PStr ''MON'') default_config)) PNone))])
     = (tracking [(''42'', PDict (user_record
          (AList.update ''weekly_review_hour'' (PInt 9)
             (AList.update ''weekly_review_day'' (PStr ''MON'') default_config)) PNone))])
         \<lparr>console := [ErrorInTask ''weekly review check'' ''42'' TypeError]\<rparr>"
  by code_simp

text \<open>
  C6 (the code departs from the claim). Three tracked users at 09:00:00Z, the second with
  timezone \<open>???\<close>, the first and the third with timezone \<open>UTC\<close> and morning hour 9: the
  claim has the second skipped and the other two fire. The code goes through all three and
  the malformed user stops nothing, but each of the three ends in the same TypeError: three
  lines are printed and nobody gets a message.
\<close>

theorem morning_check_three_users:
  "morning_check (every_user (clock_env (monday_at 9 0) 0 Delivered))
       (tracking
          [(''1'', PDict (user_record default_config PNone)),
           (''2'', PDict (user_record
              (AList.update ''timezone'' (PStr ''???'') default_config) PNone)),
           (''3'', PDict (user_record default_config PNone))])
     = (tracking
          [(''1'', PDict (user_record default_config PNone)),
           (''2'', PDict (user_record
              (AList.update ''timezone'' (PStr ''???'') default_config) PNone)),
           (''3'', PDict (user_record default_config PNone))])
         \<lparr>console := [ErrorInTask ''morning check'' ''1'' TypeError,
                      ErrorInTask ''morning check'' ''2'' TypeError,
                      ErrorInTask ''morning check'' ''3'' TypeError]\<rparr>"
  by code_simp

section \<open>Opting in and out: results\<close>

text \<open>\<open>str\<close> maps different integers to different keys.\<close>

lemma digits_val_str_digits: "0 \<le> n \<Longrightarrow> digits_val 0 (str_digits n) = Some n"
proof (induction n rule: str_digits.induct)
  case (1 n)
  show ?case
  proof (cases "n < 10")
    case True
    with "1.prems" have "n mod 10 = n"
      by simp
    with True show ?thesis
      by (subst str_digits.simps) (simp add: digit_val_digit_char)
  next
    case False
    with "1.prems" "1.IH" have "digits_val 0 (str_digits (n div 10)) = Some (n div 10)"
      by simp
    with False show ?thesis
      by (subst str_digits.simps) (simp add: digits_val_snoc digit_val_digit_char)
  qed
qed

lemma digits_val_minus: "digits_val acc (CHR ''-'' # cs) = None"
  by (simp add: digit_val_def)

lemma py_str_int_inj:
  assumes "py_str_int i = py_str_int j"
  shows "i = j"
proof -
  have neg_pos: False if "a < 0" "0 \<le> b" "py_str_int a = py_str_int b" for a b
  proof -
    from that have "CHR ''-'' # str_digits (- a) = str_digits b"
      by (simp add: py_str_int_def)
    then have "digits_val 0 (CHR ''-'' # str_digits (- a)) = digits_val 0 (str_digits b)"
      by simp
    with that(2) show False
      by (simp only: digits_val_minus digits_val_str_digits) simp
  qed
  consider "i < 0" "j < 0" | "i < 0" "0 \<le> j" | "0 \<le> i" "j < 0" | "0 \<le> i" "0 \<le> j"
    by linarith
  then show ?thesis
  proof cases
    case 1
    with assms have "digits_val 0 (str_digits (- i)) = digits_val 0 (str_digits (- j))"
      by (simp add: py_str_int_def)
    with 1 show ?thesis
      by (simp add: digits_val_str_digits)
  next
    case 2
    with neg_pos [of i j] assms show ?thesis
      by simp
  next
    case 3
    with neg_pos [of j i] assms show ?thesis
      by simp
  next
    case 4
    with assms have "digits_val 0 (str_digits i) = digits_val 0 (str_digits j)"
      by (simp add: py_str_int_def)
    with 4 show ?thesis
      by (simp add: digits_val_str_digits)
  qed
qed

text \<open>Only \<open>/begin\<close> and \<open>/stop\<close> change which keys \<open>self.user_data\<close> has.\<close>

lemma activity_check_user_keys:
  "map fst (user_data (activity_check_user e uid rec s)) = map fst (user_data s)"
proof -
  consider
    (raised) x s1 where "activity_check_body e uid rec s = Inl (x, s1)"
      "user_data s1 = user_data s"
  | (idle) "activity_check_body e uid rec s = Inr s"
  | (checked) s1 ud where
      "activity_check_body e uid rec s = Inr (s1\<lparr>user_data := ud, disk := Some (PDict ud)\<rparr>)"
      "set_user_field uid ''last_activity_check'' (PStr (isoformat (now_utc e))) (user_data s) = Inr ud"
    using activity_check_body_cases [of e uid rec s] by auto
  then show ?thesis
  proof cases
    case raised
    then show ?thesis
      by (simp add: activity_check_user_def handle_def)
  next
    case idle
    then show ?thesis
      by (simp add: activity_check_user_def handle_def)
  next
    case checked
    from set_user_field_frame [OF checked(2)] checked(1) show ?thesis
      by (simp add: activity_check_user_def handle_def)
  qed
qed

lemma activity_check_keys: "map fst (user_data (activity_check envs s)) = map fst (user_data s)"
  unfolding activity_check_def
  using for_each_user_keeps [of "\<lambda>s. map fst (user_data s)" activity_check_user]
  by (simp add: activity_check_user_keys)

text \<open>The language-model handler leaves \<open>self.user_data\<close> alone.\<close>

lemma get_claude_response_user_data:
  "get_claude_response outcomes s = Inl (x, s') \<Longrightarrow> user_data s' = user_data s"
  "get_claude_response outcomes s = Inr (r, s') \<Longrightarrow> user_data s' = user_data s"
  by (induction outcomes s rule: get_claude_response.induct)
     (auto simp: process_memory_instructions_def Let_def split: if_splits option.splits)

lemma process_evening_review_response_user_data:
  "process_evening_review_response e user_id s = Inl (x, s') \<Longrightarrow> user_data s' = user_data s"
  "process_evening_review_response e user_id s = Inr (r, s') \<Longrightarrow> user_data s' = user_data s"
  by (auto simp: process_evening_review_response_def
      dest: get_claude_response_user_data
      split: option.splits sum.splits if_splits prod.splits)

lemma on_message_keys:
  "map fst (user_data (case on_message e m s of Inl (x, s') \<Rightarrow> s' | Inr (s', sent) \<Rightarrow> s'))
     = map fst (user_data s)"
proof (cases "set_user_field (py_str_int (author_id m)) ''last_interaction''
                (PStr (isoformat (now_local e))) (user_data s)")
  case (Inl x)
  then show ?thesis
    by (simp add: on_message_def Let_def)
next
  case (Inr ud)
  from set_user_field_frame [OF Inr] have "map fst ud = map fst (user_data s)"
    by simp
  with Inr show ?thesis
    by (auto simp: on_message_def Let_def save_data_def
        dest!: process_evening_review_response_user_data
        split: sum.splits delivery.splits prod.splits)
qed

lemma map_of_keys: "map fst xs = map fst ys \<Longrightarrow> (map_of xs k = None) = (map_of ys k = None)"
  by (metis list.set_map map_of_eq_None_iff)

lemma step_tracked:
  "(map_of (user_data (step ev s)) (py_str_int uid) \<noteq> None) =
     (case ev of
        Begin e u \<Rightarrow> (if u = uid then True else map_of (user_data s) (py_str_int uid) \<noteq> None)
      | Stop u \<Rightarrow> (if u = uid then False else map_of (user_data s) (py_str_int uid) \<noteq> None)
      | _ \<Rightarrow> map_of (user_data s) (py_str_int uid) \<noteq> None)"
proof (cases ev)
  case (Begin e u)
  show ?thesis
  proof (cases "u = uid")
    case True
    with Begin show ?thesis
      by (auto simp: begin_tracking_def add_user_def save_data_def Let_def update_conv')
  next
    case False
    then have "py_str_int u \<noteq> py_str_int uid"
      using py_str_int_inj by blast
    with Begin False show ?thesis
      by (auto simp: begin_tracking_def add_user_def save_data_def Let_def update_conv')
  qed
next
  case (Stop u)
  show ?thesis
  proof (cases "u = uid")
    case True
    with Stop show ?thesis
      by (auto simp: stop_def save_data_def Let_def delete_conv')
  next
    case False
    then have "py_str_int u \<noteq> py_str_int uid"
      using py_str_int_inj by blast
    with Stop False show ?thesis
      by (auto simp: stop_def save_data_def Let_def delete_conv')
  qed
next
  case (ActivityTick envs)
  then show ?thesis
    using map_of_keys [OF activity_check_keys [of envs s]] by simp
next
  case (MorningTick envs)
  then show ?thesis
    by (simp add: morning_check_silent)
next
  case (EveningTick envs)
  then show ?thesis
    by (simp add: evening_review_silent)
next
  case (WeeklyTick envs)
  then show ?thesis
    by (simp add: weekly_review_check_silent)
next
  case (Inbound e m)
  then show ?thesis
    using map_of_keys [OF on_message_keys [of e m s]] by simp
qed

lemma opted_in_Cons:
  "opted_in (ev # evs) uid b =
     opted_in evs uid
       (case ev of
          Begin e u \<Rightarrow> (if u = uid then True else b)
        | Stop u \<Rightarrow> (if u = uid then False else b)
        | _ \<Rightarrow> b)"
  by (cases ev) simp_all

lemma run_tracked:
  "(map_of (user_data (run evs s)) (py_str_int uid) \<noteq> None) =
     opted_in evs uid (map_of (user_data s) (py_str_int uid) \<noteq> None)"
proof (induction evs arbitrary: s)
  case Nil
  show ?case by simp
next
  case (Cons ev evs)
  have "(map_of (user_data (run (ev # evs) s)) (py_str_int uid) \<noteq> None) =
      opted_in evs uid (map_of (user_data (step ev s)) (py_str_int uid) \<noteq> None)"
    using Cons.IH [of "step ev s"] by simp
  then show ?case
    by (simp only: step_tracked opted_in_Cons)
qed

text \<open>
  C7. \<open>/stop\<close> removes the user's key from \<open>self.user_data\<close> altogether (and, for a tracked
  user, writes the dictionary without it to the file); over any run of commands, ticks and
  inbound messages, the key of a user is present exactly when the user's last \<open>/begin\<close> or
  \<open>/stop\<close> was a \<open>/begin\<close> (or, with neither in the run, when it was present before);
  and \<open>/stop\<close> followed by \<open>/begin\<close> leaves the user with a new record whose \<open>config\<close> is
  the default configuration, whatever the record held before.
\<close>

theorem stop_then_begin:
  "map_of (user_data (fst (stop uid s))) (py_str_int uid) = None \<and>
   disk (fst (stop uid s)) =
     (if map_of (user_data s) (py_str_int uid) \<noteq> None
      then Some (PDict (user_data (fst (stop uid s)))) else disk s) \<and>
   (map_of (user_data (run evs s)) (py_str_int uid) \<noteq> None) =
     opted_in evs uid (map_of (user_data s) (py_str_int uid) \<noteq> None) \<and>
   map_of (user_data (fst (begin_tracking e uid (fst (stop uid s))))) (py_str_int uid)
     = Some (new_record (now_local e)) \<and>
   py_getitem (new_record (now_local e)) ''config'' = Inr (PDict default_config)"
proof -
  have gone: "map_of (user_data (fst (stop uid s))) (py_str_int uid) = None"
    by (auto simp: stop_def Let_def save_data_def delete_conv')
  have written: "disk (fst (stop uid s)) =
     (if map_of (user_data s) (py_str_int uid) \<noteq> None
      then Some (PDict (user_data (fst (stop uid s)))) else disk s)"
    by (auto simp: stop_def Let_def save_data_def)
  have again: "map_of (user_data (fst (begin_tracking e uid (fst (stop uid s))))) (py_str_int uid)
     = Some (new_record (now_local e))"
    using gone
    by (simp add: begin_tracking_def add_user_def Let_def save_data_def update_conv')
  have fresh: "py_getitem (new_record (now_local e)) ''config'' = Inr (PDict default_config)"
    by (simp add: new_record_def py_getitem_def)
  from gone written run_tracked [of evs s uid] again fresh show ?thesis
    by simp
qed

text \<open>User 42 has set the morning hour to 7. After \<open>/stop\<close> and \<open>/begin\<close> (at 09:00) the
  record is a new one with the default configuration, morning hour 9; and a run of
  \<open>/begin\<close>, an activity tick, \<open>/stop\<close> and \<open>/begin\<close> from an empty dictionary ends with the
  user tracked, one of \<open>/begin\<close>, a tick and \<open>/stop\<close> with the user not tracked.\<close>

theorem stop_then_begin_witness:
  "map_of (user_data (fst (begin_tracking (clock_env (monday_at 9 0) 0 Delivered) 42
       (fst (stop 42 (tracking [(''42'', PDict (user_record
          (AList.update ''morning_check_hour'' (PInt 7) default_config) PNone))])))))) ''42''
     = Some (PDict [(''joined_date'', PStr ''2024-01-01T09:00:00''),
                    (''weekly_plans'', PList []),
                    (''daily_logs'', PList []),
                    (''last_interaction'', PNone),
                    (''last_activity_check'', PNone),
                    (''config'', PDict default_config)]) \<and>
   map_of (user_data (run [Begin (clock_env (monday_at 9 0) 0 Delivered) 42,
                           ActivityTick (every_user (clock_env (monday_at 9 1) 0 Delivered)),
                           Stop 42,
                           Begin (clock_env (monday_at 9 2) 0 Delivered) 42]
                      (tracking []))) ''42'' \<noteq> None \<and>
   map_of (user_data (run [Begin (clock_env (monday_at 9 0) 0 Delivered) 42,
                           ActivityTick (every_user (clock_env (monday_at 9 1) 0 Delivered)),
                           Stop 42]
                      (tracking []))) ''42'' = None"
proof -
  have key: "py_str_int 42 = ''42''"
    by code_simp
  have rec: "new_record (now_local (clock_env (monday_at 9 0) 0 Delivered)) =
      PDict [(''joined_date'', PStr ''2024-01-01T09:00:00''),
             (''weekly_plans'', PList []),
             (''daily_logs'', PList []),
             (''last_interaction'', PNone),
             (''last_activity_check'', PNone),
             (''config'', PDict default_config)]"
    by code_simp
  have empty: "map_of (user_data (tracking [])) ''42'' = None"
    by (simp add: tracking_def)
  note a = stop_then_begin
      [of 42 "tracking [(''42'', PDict (user_record
          (AList.update ''morning_check_hour'' (PInt 7) default_config) PNone))]"
          "[]" "clock_env (monday_at 9 0) 0 Delivered"]
  note b = stop_then_begin
      [of 42 "tracking []"
          "[Begin (clock_env (monday_at 9 0) 0 Delivered) 42,
            ActivityTick (every_user (clock_env (monday_at 9 1) 0 Delivered)),
            Stop 42,
            Begin (clock_env (monday_at 9 2) 0 Delivered) 42]"]
  note c = stop_then_begin
      [of 42 "tracking []"
          "[Begin (clock_env (monday_at 9 0) 0 Delivered) 42,
            ActivityTick (every_user (clock_env (monday_at 9 1) 0 Delivered)),
            Stop 42]"]
  from a have "map_of (user_data (fst (begin_tracking (clock_env (monday_at 9 0) 0 Delivered) 42
       (fst (stop 42 (tracking [(''42'', PDict (user_record
          (AList.update ''morning_check_hour'' (PInt 7) default_config) PNone))])))))) ''42''
     = Some (PDict [(''joined_date'', PStr ''2024-01-01T09:00:00''),
                    (''weekly_plans'', PList []),
                    (''daily_logs'', PList []),
                    (''last_interaction'', PNone),
                    (''last_activity_check'', PNone),
                    (''config'', PDict default_config)])"
    by (simp only: key rec)
  moreover from b empty
  have "map_of (user_data (run [Begin (clock_env (monday_at 9 0) 0 Delivered) 42,
                           ActivityTick (every_user (clock_env (monday_at 9 1) 0 Delivered)),
                           Stop 42,
                           Begin (clock_env (monday_at 9 2) 0 Delivered) 42]
                      (tracking []))) ''42'' \<noteq> None"
    by (simp only: key) simp
  moreover from c empty
  have "map_of (user_data (run [Begin (clock_env (monday_at 9 0) 0 Delivered) 42,
                           ActivityTick (every_user (clock_env (monday_at 9 1) 0 Delivered)),
                           Stop 42]
                      (tracking []))) ''42'' = None"
    by (simp only: key) simp
  ultimately show ?thesis
    by simp
qed

section \<open>Inbound messages: results\<close>

text \<open>
  C8 (the code departs from the claim). User 42 is tracked, with time tracking disabled,
  and sends a direct message. First the language-model client answers with a message
  whose text is \<open>kk MEMORY_UPDATE: {"add": {"k": "v"}}\<close>, a directive in the form the prompts
  ask for. The claim has the router add \<open>k\<close> to the memory store and send \<open>kk\<close>. The code
  holds the message object, not its text: \<open>"MEMORY_UPDATE:" in response\<close> is false, the
  memory store stays empty and the object itself, directive included, is passed to
  \<open>message.channel.send\<close>. Then the call of the client raises (as it does with the client
  the handler builds): the dictionary of the \<open>except\<close> clause is passed to
  \<open>message.channel.send\<close>, and the memory store stays empty as well. Last,
  \<open>_process_memory_instructions\<close> on the same instructions would store \<open>k\<close>.
\<close>

theorem on_message_memory_update:
  "on_message
       ((clock_env (monday_at 9 0) 0 Delivered)
          \<lparr>api := [ApiReturned
                     \<lparr>stop_reason = ''end_turn'',
                      blocks = [TextBlock ''kk MEMORY_UPDATE: {\"add\": {\"k\": \"v\"}}'']\<rparr>]\<rparr>)
       \<lparr>from_self = False, in_dm = True, author_id = 42\<rparr>
       (tracking [(''42'', PDict (user_record default_config PNone))])
     = Inr (\<lparr>user_data =
               [(''42'', PDict [(''joined_date'', PStr ''2023-12-31T08:00:00''),
                                (''weekly_plans'', PList []),
                                (''daily_logs'', PList []),
                                (''last_interaction'', PStr ''2024-01-01T09:00:00''),
                                (''last_activity_check'', PNone),
                                (''config'', PDict default_config)])],
             memory = [],
             disk = Some (PDict
               [(''42'', PDict [(''joined_date'', PStr ''2023-12-31T08:00:00''),
                                (''weekly_plans'', PList []),
                                (''daily_logs'', PList []),
                                (''last_interaction'', PStr ''2024-01-01T09:00:00''),
                                (''last_activity_check'', PNone),
                                (''config'', PDict default_config)])]),
             outbox = [],
             console = []\<rparr>,
            Some (MessageObject
                    \<lparr>stop_reason = ''end_turn'',
                     blocks = [TextBlock ''kk MEMORY_UPDATE: {\"add\": {\"k\": \"v\"}}'']\<rparr>)) \<and>
   on_message
       ((clock_env (monday_at 9 0) 0 Delivered)\<lparr>api := [ApiRaised TypeError]\<rparr>)
       \<lparr>from_self = False, in_dm = True, author_id = 42\<rparr>
       (tracking [(''42'', PDict (user_record default_config PNone))])
     = Inr (\<lparr>user_data =
               [(''42'', PDict [(''joined_date'', PStr ''2023-12-31T08:00:00''),
                                (''weekly_plans'', PList []),
                                (''daily_logs'', PList []),
                                (''last_interaction'', PStr ''2024-01-01T09:00:00''),
                                (''last_activity_check'', PNone),
                                (''config'', PDict default_config)])],
             memory = [],
             disk = Some (PDict
               [(''42'', PDict [(''joined_date'', PStr ''2023-12-31T08:00:00''),
                                (''weekly_plans'', PList []),
                                (''daily_logs'', PList []),
                                (''last_interaction'', PStr ''2024-01-01T09:00:00''),
                                (''last_activity_check'', PNone),
                                (''config'', PDict default_config)])]),
             outbox = [],
             console = [ErrorGettingResponse TypeError]\<rparr>,
            Some FallbackDict) \<and>
   memory (process_memory_instructions
             \<lparr>mi_delete = None, mi_update = None, mi_add = Some [(''k'', PStr ''v'')]\<rparr>
             (tracking [(''42'', PDict (user_record default_config PNone))]))
     = [(''k'', PStr ''v'')]"
  by code_simp

text \<open>
  The memory store changes on one path only: the client answers with the use of the tool
  \<open>update_memory\<close>. The instructions are then applied, awaiting the summary string raises,
  and the user is sent the dictionary of the \<open>except\<close> clause.
\<close>

lemma on_message_tool_use:
  "on_message
       ((clock_env (monday_at 9 0) 0 Delivered)
          \<lparr>api := [ApiReturned
                     \<lparr>stop_reason = ''tool_use'',
                      blocks = [TextBlock ''kk'',
                                ToolUseBlock ''update_memory''
                                  \<lparr>mi_delete = None, mi_update = None,
                                   mi_add = Some [(''k'', PStr ''v'')]\<rparr>]\<rparr>]\<rparr>)
       \<lparr>from_self = False, in_dm = True, author_id = 42\<rparr>
       (tracking [(''42'', PDict (user_record default_config PNone))])
     = Inr (\<lparr>user_data =
               [(''42'', PDict [(''joined_date'', PStr ''2023-12-31T08:00:00''),
                                (''weekly_plans'', PList []),
                                (''daily_logs'', PList []),
                                (''last_interaction'', PStr ''2024-01-01T09:00:00''),
                                (''last_activity_check'', PNone),
                                (''config'', PDict default_config)])],
             memory = [(''k'', PStr ''v'')],
             disk = Some (PDict
               [(''42'', PDict [(''joined_date'', PStr ''2023-12-31T08:00:00''),
                                (''weekly_plans'', PList []),
                                (''daily_logs'', PList []),
                                (''last_interaction'', PStr ''2024-01-01T09:00:00''),
                                (''last_activity_check'', PNone),
                                (''config'', PDict default_config)])]),
             outbox = [],
             console = [ErrorGettingResponse TypeError]\<rparr>,
            Some FallbackDict)"
  by code_simp

text \<open>Whatever the client does, what is sent is never a text from which a directive has
  been cut: a marker is found in no response, and \<open>on_message\<close> passes on the response it
  was given.\<close>

lemma marker_in_never:
  "\<not> marker_in ''MEMORY_UPDATE:'' r"
  "\<not> marker_in ''END_CONVERSATION: true'' r"
  "\<not> marker_in ''END_CONVERSATION: false'' r"
  by (cases r; simp)+

section \<open>The user-data file: results\<close>

text \<open>
  C9. For a file that holds a user-data document: when the bot's dictionary is what
  \<open>load_data\<close> reads from it and nothing is assigned in between, \<open>save_data\<close> leaves a
  file with the same content, from which \<open>load_data\<close> reads the same mapping again.
  (Documents are compared by the value \<open>json.load\<close> reads from them, not by their text.)
\<close>

theorem load_then_save:
  assumes "disk s = Some doc" and "load_data (disk s) = PDict m"
  shows "disk (save_data (s\<lparr>user_data := m\<rparr>)) = disk s \<and>
         load_data (disk (save_data (s\<lparr>user_data := m\<rparr>))) = load_data (disk s)"
  using assms by (simp add: load_data_def save_data_def)

theorem load_then_save_witness:
  "load_data (Some (PDict [(''42'', PDict (user_record default_config PNone)),
                           (''7'', PDict (user_record default_config
                                            (PStr ''2024-01-01T08:45:00+00:00'')))]))
     = PDict [(''42'', PDict (user_record default_config PNone)),
              (''7'', PDict (user_record default_config (PStr ''2024-01-01T08:45:00+00:00'')))] \<and>
   disk (save_data
          (\<lparr>user_data = [], memory = [],
            disk = Some (PDict [(''42'', PDict (user_record default_config PNone)),
                                (''7'', PDict (user_record default_config
                                                 (PStr ''2024-01-01T08:45:00+00:00'')))]),
            outbox = [], console = []\<rparr>
           \<lparr>user_data := [(''42'', PDict (user_record default_config PNone)),
                           (''7'', PDict (user_record default_config
                                            (PStr ''2024-01-01T08:45:00+00:00'')))]\<rparr>))
     = Some (PDict [(''42'', PDict (user_record default_config PNone)),
                    (''7'', PDict (user_record default_config
                                     (PStr ''2024-01-01T08:45:00+00:00'')))])"
proof -
  define m where
    "m = [(''42'', PDict (user_record default_config PNone)),
          (''7'', PDict (user_record default_config (PStr ''2024-01-01T08:45:00+00:00'')))]"
  define s where
    "s = \<lparr>user_data = [], memory = [], disk = Some (PDict m), outbox = [], console = []\<rparr>"
  have d: "disk s = Some (PDict m)"
    by (simp add: s_def)
  have l: "load_data (disk s) = PDict m"
    by (simp add: s_def load_data_def)
  from load_then_save [OF d l] d l show ?thesis
    unfolding s_def m_def by simp
qed

end
